theory Spec2Isabelle
  imports Complex_Main
begin

section \<open>Message routing of the Slack bot: \<^verbatim>\<open>src/handlers/messageHandler.js\<close>\<close>

text \<open>
  The development embeds \<^verbatim>\<open>handleSlackMessageEventInternal\<close> and its helper
  \<^verbatim>\<open>updateOrDeleteThinkingMessage\<close>. The handler is an asynchronous JavaScript function
  that awaits one external call after the other; since nothing runs concurrently inside
  one invocation, it is modelled as a sequential function that passes a \<open>world\<close> along:
  the list of external calls made so far and the list of \<^verbatim>\<open>console.warn\<close> /
  \<^verbatim>\<open>console.error\<close> entries written so far. What an external call answers is given
  by an environment of oracles, each a function of the whole call history, so that two
  calls with the same arguments may be answered differently. Exceptions are values.

  Purely informational \<^verbatim>\<open>console.log\<close> lines are left out: they have no influence on
  control flow and no property below speaks about them.
\<close>

subsection \<open>JavaScript strings\<close>

text \<open>
  Strings are lists of 8-bit characters, read as the code units U+0000 to U+00FF.
  \<open>length\<close> therefore counts code units, as \<^verbatim>\<open>String.prototype.length\<close> does on such
  strings. Emoji of the source's literals are written as their UTF-8 bytes.
\<close>

definition is_space :: "char \<Rightarrow> bool" where
  \<comment> \<open>WhiteSpace and LineTerminator of ECMAScript, below U+0100\<close>
  "is_space c = ((of_char c :: nat) \<in> {9, 10, 11, 12, 13, 32, 160})"

definition trim :: "string \<Rightarrow> string" where
  "trim s = rev (dropWhile is_space (rev (dropWhile is_space s)))"

definition lower_char :: "char \<Rightarrow> char" where
  "lower_char c =
     (let n = (of_char c :: nat)
      in if (65 \<le> n \<and> n \<le> 90) \<or> (192 \<le> n \<and> n \<le> 222 \<and> n \<noteq> 215)
         then char_of (n + 32) else c)"

definition upper_char :: "char \<Rightarrow> char" where
  \<comment> \<open>the simple upper-case mapping a case-insensitive pattern compares with; a character
      whose upper-case form lies outside one code unit below U+0100 is left alone\<close>
  "upper_char c =
     (let n = (of_char c :: nat)
      in if (97 \<le> n \<and> n \<le> 122) \<or> (224 \<le> n \<and> n \<le> 254 \<and> n \<noteq> 247)
         then char_of (n - 32) else c)"

definition toLowerCase :: "string \<Rightarrow> string" where
  "toLowerCase s = map lower_char s"

definition startsWith :: "string \<Rightarrow> string \<Rightarrow> bool" where
  "startsWith s p = (take (length p) s = p)"

fun remove_first :: "string \<Rightarrow> string \<Rightarrow> string" where
  \<comment> \<open>\<^verbatim>\<open>s.replace(pat, '')\<close> with a string pattern: only the first occurrence goes\<close>
  "remove_first pat [] = []"
| "remove_first pat (x # xs) =
     (if startsWith (x # xs) pat then drop (length pat) (x # xs)
      else x # remove_first pat xs)"

definition substring_0_200 :: "string \<Rightarrow> string" where
  \<comment> \<open>\<^verbatim>\<open>t.substring(0, 200) + (t.length > 200 ? '...' : '')\<close>\<close>
  "substring_0_200 t = take 200 t @ (if length t > 200 then ''...'' else [])"

definition truthy :: "string option \<Rightarrow> bool" where
  \<comment> \<open>a value that is a string, \<^verbatim>\<open>null\<close> or \<^verbatim>\<open>undefined\<close> is truthy when it is a
      non-empty string\<close>
  "truthy v = (case v of None \<Rightarrow> False | Some s \<Rightarrow> s \<noteq> [])"

definition is_digit :: "char \<Rightarrow> bool" where
  "is_digit c = (48 \<le> (of_char c :: nat) \<and> (of_char c :: nat) \<le> 57)"

definition is_word :: "char \<Rightarrow> bool" where
  \<comment> \<open>\<^verbatim>\<open>\w\<close>\<close>
  "is_word c =
     (let n = (of_char c :: nat)
      in (48 \<le> n \<and> n \<le> 57) \<or> (65 \<le> n \<and> n \<le> 90) \<or> (97 \<le> n \<and> n \<le> 122) \<or> n = 95)"

text \<open>
  The Number values \<^verbatim>\<open>parseInt\<close> can return. A Number is a double: NaN, an infinity,
  minus zero, or a finite value, which for \<^verbatim>\<open>parseInt\<close> is always an integer. An integer
  below \<open>2^53\<close> is a double as it is; a larger one is rounded to 53 significant bits, to
  the nearest double with ties to the even one, and becomes an infinity from
  \<open>2^1024 - 2^970\<close> on. The digits are read exactly before the rounding; the language
  definition also lets an engine read the digits after the twentieth as zeros, which can
  move the result to a neighbouring double.
\<close>

datatype number = NaN | Integral int | MinusZero | PlusInfinity | MinusInfinity

definition digits_value :: "string \<Rightarrow> int" where
  "digits_value ds = foldl (\<lambda>a c. 10 * a + (int (of_char c) - 48)) 0 ds"

function bit_length :: "int \<Rightarrow> nat" where
  "bit_length n = (if n \<le> 0 then 0 else Suc (bit_length (n div 2)))"
  by pat_completeness auto
termination by (relation "measure nat") auto

declare bit_length.simps [simp del]

definition round_to_double :: "int \<Rightarrow> int option" where
  \<comment> \<open>the double nearest to a positive integer; \<open>None\<close> is the infinity\<close>
  "round_to_double n =
     (if n < 2 ^ 53 then Some n
      else (let e = bit_length n - 53;
                q = n div 2 ^ e;
                r = n mod 2 ^ e;
                half = 2 ^ (e - 1);
                q' = (if half < r \<or> (r = half \<and> q mod 2 = 1) then q + 1 else q);
                v = q' * 2 ^ e
            in if 2 ^ 1024 \<le> v then None else Some v))"

definition parseInt10 :: "string option \<Rightarrow> number" where
  \<comment> \<open>\<^verbatim>\<open>parseInt(v, 10)\<close>: leading white space is skipped, one sign is read, then the
      longest run of decimal digits; the result is the Number for the signed value of
      these digits. An undefined argument reads as the text "undefined" and gives NaN.\<close>
  "parseInt10 v =
     (case v of
        None \<Rightarrow> NaN
      | Some s \<Rightarrow>
          (let t = dropWhile is_space s;
               neg = (t \<noteq> [] \<and> hd t = CHR ''-'');
               u = (if t \<noteq> [] \<and> (hd t = CHR ''-'' \<or> hd t = CHR ''+'') then tl t else t);
               ds = takeWhile is_digit u
           in if ds = [] then NaN
              else if digits_value ds = 0 then (if neg then MinusZero else Integral 0)
              else (case round_to_double (digits_value ds) of
                      None \<Rightarrow> if neg then MinusInfinity else PlusInfinity
                    | Some m \<Rightarrow> Integral (if neg then - m else m))))"

subsection \<open>Regular expressions\<close>

text \<open>
  The command grammars are regular expressions with named groups, matched by
  \<^verbatim>\<open>String.prototype.match\<close>. The matcher below is the backtracking matcher of
  ECMAScript restricted to the constructs the patterns use: it returns every way to
  match, in the order in which backtracking tries them, so that the head of the list is
  the match JavaScript reports. A state is the unread input and the groups captured so
  far. All patterns carry the flag \<^verbatim>\<open>i\<close>, so a literal compares upper-cased characters.
  A repetition takes one more round first (greedy) and a round must consume input, which
  bounds the rounds by the length of the unread input.
\<close>

type_synonym groups = "(string \<times> string) list"
type_synonym mstate = "string \<times> groups"

datatype rx =
    Cls "char \<Rightarrow> bool"
  | Seq rx rx
  | Alt rx rx
  | Star rx
  | Opt rx
  | Grp string rx
  | Eps
  | Eos

fun star_rounds :: "nat \<Rightarrow> (mstate \<Rightarrow> mstate list) \<Rightarrow> mstate \<Rightarrow> mstate list" where
  "star_rounds 0 f st = [st]"
| "star_rounds (Suc n) f st =
     concat (map (star_rounds n f)
               (filter (\<lambda>st'. length (fst st') < length (fst st)) (f st))) @ [st]"

primrec run :: "rx \<Rightarrow> mstate \<Rightarrow> mstate list" where
  "run (Cls p) = (\<lambda>st. case fst st of [] \<Rightarrow> [] | x # xs \<Rightarrow> if p x then [(xs, snd st)] else [])"
| "run (Seq a b) = (\<lambda>st. concat (map (run b) (run a st)))"
| "run (Alt a b) = (\<lambda>st. run a st @ run b st)"
| "run (Star a) = (\<lambda>st. star_rounds (length (fst st)) (run a) st)"
| "run (Opt a) = (\<lambda>st. run a st @ [st])"
| "run (Grp n a) =
     (\<lambda>st. map (\<lambda>st'. (fst st', (n, take (length (fst st) - length (fst st')) (fst st)) # snd st'))
              (run a st))"
| "run Eps = (\<lambda>st. [st])"
| "run Eos = (\<lambda>st. if fst st = [] then [st] else [])"

definition Plus :: "rx \<Rightarrow> rx" where
  "Plus a = Seq a (Star a)"

definition lit :: "string \<Rightarrow> rx" where
  \<comment> \<open>a literal text under the flag \<^verbatim>\<open>i\<close>\<close>
  "lit s = foldr (\<lambda>c r. Seq (Cls (\<lambda>x. upper_char x = upper_char c)) r) s Eps"

definition seqs :: "rx list \<Rightarrow> rx" where
  "seqs rs = foldr Seq rs Eps"

definition regex_match :: "rx \<Rightarrow> string \<Rightarrow> groups option" where
  \<comment> \<open>\<^verbatim>\<open>s.match(re)\<close> for a pattern that starts with \<^verbatim>\<open>^\<close> and has no flag \<^verbatim>\<open>g\<close> or
      \<^verbatim>\<open>m\<close>: only a match at index 0 exists; the result is \<^verbatim>\<open>match.groups\<close>\<close>
  "regex_match re s = (case run re (s, []) of [] \<Rightarrow> None | st # _ \<Rightarrow> Some (snd st))"

definition group :: "groups \<Rightarrow> string \<Rightarrow> string option" where
  \<comment> \<open>\<^verbatim>\<open>groups.name\<close>: undefined when the group took no part in the match\<close>
  "group g n = map_of g n"

definition cls_space :: rx where "cls_space = Cls is_space"
definition cls_word_dot_dash :: rx where
  \<comment> \<open>\<^verbatim>\<open>[\w.-]\<close>\<close>
  "cls_word_dot_dash = Cls (\<lambda>c. is_word c \<or> c = CHR ''.'' \<or> c = CHR ''-'')"
definition cls_word_dash :: rx where
  \<comment> \<open>\<^verbatim>\<open>[\w-]\<close>\<close>
  "cls_word_dash = Cls (\<lambda>c. is_word c \<or> c = CHR ''-'')"
definition cls_digit :: rx where "cls_digit = Cls is_digit"
definition cls_dot :: rx where
  \<comment> \<open>\<^verbatim>\<open>.\<close> without the flag \<^verbatim>\<open>s\<close>: anything but a line terminator\<close>
  "cls_dot = Cls (\<lambda>c. c \<noteq> CHR 0x0A \<and> c \<noteq> CHR 0x0D)"

definition RELEASE_REGEX :: "string \<Rightarrow> rx" where
  "RELEASE_REGEX prefix = seqs
     [lit prefix, Star cls_space, lit ''release'', Plus cls_space,
      Grp ''repo_id'' (Seq (Plus cls_word_dot_dash)
                           (Opt (Seq (lit ''/'') (Plus cls_word_dot_dash)))),
      Star cls_space, Eos]"

definition PR_REVIEW_REGEX :: "string \<Rightarrow> rx" where
  "PR_REVIEW_REGEX prefix = seqs
     [lit prefix, Star cls_space, lit ''review'', Plus cls_space, lit ''pr'', Plus cls_space,
      Grp ''owner'' (Plus cls_word_dot_dash), lit ''/'',
      Grp ''repo'' (Plus cls_word_dot_dash), lit ''#'',
      Grp ''pr_number'' (Plus cls_digit), Plus cls_space, lit ''#'',
      Grp ''workspace_slug'' (Plus cls_word_dash),
      Star cls_space, Eos]"

definition ISSUE_ANALYSIS_REGEX :: "string \<Rightarrow> rx" where
  "ISSUE_ANALYSIS_REGEX prefix = seqs
     [lit prefix, Star cls_space,
      Alt (lit ''analyze'') (Alt (lit ''summarize'') (lit ''explain'')),
      Plus cls_space, lit ''issue'', Plus cls_space,
      Opt (seqs [Grp ''owner'' (Plus cls_word_dot_dash), lit ''/'',
                 Grp ''repo'' (Plus cls_word_dot_dash)]),
      lit ''#'', Grp ''issue_number'' (Plus cls_digit),
      Opt (seqs [Star cls_space, lit ''#'', Grp ''workspace_slug'' (Plus cls_word_dash)]),
      Opt (seqs [Plus cls_space, Grp ''user_prompt'' (Plus cls_dot)]),
      Star cls_space, Eos]"

definition GENERIC_API_REGEX :: "string \<Rightarrow> rx" where
  "GENERIC_API_REGEX prefix = seqs
     [lit prefix, Star cls_space, lit ''api'', Plus cls_space,
      Grp ''api_query'' (Plus cls_dot), Star cls_space, Eos]"


text \<open>
  The pattern of line 54, \<^verbatim>\<open>WORKSPACE_OVERRIDE_REGEX\<close>, is compiled from a text that
  contains a constant of the configuration as it stands: a backslash, the
  workspace-override sigil (not escaped) and \<^verbatim>\<open>(\S+)\<close>. What this text denotes depends
  on the sigil: with \<^verbatim>\<open>#\<close> it is the sign followed by non-space characters, with
  \<^verbatim>\<open>b\<close> it starts with a word boundary, with \<^verbatim>\<open>w\<close> with a word character, and a
  sigil may carry pattern syntax of its own. The compiled pattern is therefore a
  parameter, given by what \<^verbatim>\<open>String.prototype.replace\<close> asks of a pattern without the
  flag \<^verbatim>\<open>g\<close>: the index and the length of its leftmost match in a text, if there is one.
\<close>

type_synonym regexp = "string \<Rightarrow> (nat \<times> nat) option"

definition replace_by_empty :: "regexp \<Rightarrow> string \<Rightarrow> string" where
  \<comment> \<open>\<^verbatim>\<open>s.replace(re, '')\<close>\<close>
  "replace_by_empty re s = (case re s of None \<Rightarrow> s | Some (i, n) \<Rightarrow> take i s @ drop (i + n) s)"

fun leftmost_match :: "rx \<Rightarrow> nat \<Rightarrow> string \<Rightarrow> (nat \<times> nat) option" where
  \<comment> \<open>the search of an unanchored pattern from index \<open>i\<close> on, in the text that starts there\<close>
  "leftmost_match re i [] = (case run re ([], []) of [] \<Rightarrow> None | st # _ \<Rightarrow> Some (i, 0))"
| "leftmost_match re i (x # xs) =
     (case run re (x # xs, []) of
        [] \<Rightarrow> leftmost_match re (Suc i) xs
      | st # _ \<Rightarrow> Some (i, length (x # xs) - length (fst st)))"

definition hash_override_regex :: regexp where
  \<comment> \<open>the pattern \<^verbatim>\<open>\#(\S+)\<close>, which is what line 54 compiles when the sigil is \<^verbatim>\<open>#\<close>:
      the sign itself followed by non-space characters\<close>
  "hash_override_regex =
     leftmost_match (Seq (Cls (\<lambda>c. c = CHR ''#'')) (Plus (Cls (\<lambda>c. \<not> is_space c)))) 0"

subsection \<open>Data\<close>

record error =
  err_data :: "string option"  \<comment> \<open>\<^verbatim>\<open>error.data?.error\<close>, the code Slack's client reports\<close>
  err_message :: string        \<comment> \<open>\<^verbatim>\<open>error.message\<close>\<close>

definition Error :: "string \<Rightarrow> error" where
  \<comment> \<open>\<^verbatim>\<open>new Error(m)\<close>\<close>
  "Error m = \<lparr>err_data = None, err_message = m\<rparr>"

definition error_text :: "error \<Rightarrow> string" where
  \<comment> \<open>\<^verbatim>\<open>err.data?.error || err.message\<close>\<close>
  "error_text e = (case err_data e of
                     None \<Rightarrow> err_message e
                   | Some d \<Rightarrow> if d \<noteq> [] then d else err_message e)"

record slack_event =
  ev_user :: string
  ev_text :: "string option"       \<comment> \<open>\<^verbatim>\<open>text\<close>, by default the empty string\<close>
  ev_channel :: string
  ev_ts :: string
  ev_thread_ts :: "string option"

text \<open>
  The constants imported from \<^verbatim>\<open>../config.js\<close> are parameters; in place of the
  workspace-override sigil, which is used for nothing else, stands the pattern that line
  54 compiles from it.
\<close>

record config =
  botUserId :: string
  githubWorkspaceSlug :: string
  formatterWorkspaceSlug :: string
  MIN_SUBSTANTIVE_RESPONSE_LENGTH :: int
  GITHUB_OWNER :: string
  githubToken :: "string option"
  COMMAND_PREFIX :: string
  WORKSPACE_OVERRIDE_REGEX :: regexp
  intentRoutingEnabled :: bool
  intentConfidenceThreshold :: rat

record button =
  btn_text :: string
  btn_style :: "string option"
  btn_value :: string
  btn_action_id :: string

datatype blocks =
    RichText string                 \<comment> \<open>\<^verbatim>\<open>[block]\<close>, one rich-text block\<close>
  | Feedback string "button list"   \<comment> \<open>a divider and an actions block: its id and buttons\<close>

record post_args =
  p_channel :: string
  p_thread_ts :: string
  p_text :: string
  p_blocks :: "blocks option"

record thread_mapping =
  anythingllm_workspace_slug :: "string option"
  anythingllm_thread_slug :: "string option"

record intent_result =
  intent :: "string option"
  confidence :: rat
  suggestedWorkspace :: "string option"

record segment =
  seg_type :: string
  seg_content :: "string option"
  seg_language :: "string option"

text \<open>
  Every call that leaves the handler, with the arguments it is given (the Slack and
  Octokit client objects, which are passed through, are left out).
\<close>

datatype call =
    ChatPostMessage post_args
  | ChatUpdate string string string
      \<comment> \<open>channel, ts, text\<close>
  | ChatDelete string string
      \<comment> \<open>channel, ts\<close>
  | HandleDeleteLastMessageCommand string string string
      \<comment> \<open>channelId, replyTarget, botUserId\<close>
  | HandleReleaseInfoCommand string string string string
      \<comment> \<open>repo_id, replyTarget, thinkingMessageTs, channelId\<close>
  | HandlePrReviewCommand string string number string string string string
      \<comment> \<open>owner, repo, prNum, workspace_slug, replyTarget, channelId, thinkingMessageTs\<close>
  | HandleIssueAnalysisCommand string string number "string option" string string string
      "string option" "string option"
      \<comment> \<open>owner, repo, issueNum, user_prompt, replyTarget, channelId, thinkingMessageTs,
          llmWs, llmThread\<close>
  | HandleGithubApiCommand string string string string string string
      \<comment> \<open>api_query, replyTarget, channelId, thinkingMessageTs, githubWorkspaceSlug,
          formatterWorkspaceSlug\<close>
  | GetAnythingLLMThreadMapping string string
      \<comment> \<open>channelId, replyTarget\<close>
  | StoreAnythingLLMThreadMapping string string "string option" "string option"
      \<comment> \<open>channelId, replyTarget, workspace, thread\<close>
  | CreateNewAnythingLLMThread "string option"
  | DetermineWorkspace "string option" string string
      \<comment> \<open>suggestedWorkspace, userId, channelId\<close>
  | DetectIntentAndWorkspace string
  | QueryLlm "string option" "string option" string
      \<comment> \<open>workspace, thread, input text\<close>
  | Delay nat
      \<comment> \<open>the awaited \<^verbatim>\<open>setTimeout\<close>, in milliseconds\<close>

datatype level = Warn | Err

datatype logarg = ArgText string | ArgError error | ArgGroups groups | ArgNat nat | ArgBool bool

datatype log_entry = Log level string "logarg list"
  \<comment> \<open>\<^verbatim>\<open>console.warn\<close> or \<^verbatim>\<open>console.error\<close>: the fixed text and the values printed with it\<close>

record world =
  calls :: "call list"
  logs :: "log_entry list"

text \<open>
  The collaborators imported from \<^verbatim>\<open>../services/index.js\<close>, \<^verbatim>\<open>./commandHandler.js\<close> and
  \<^verbatim>\<open>../utils/formattingService.js\<close> and the Slack client are not part of the file; they
  are parameters. An oracle sees the history of calls, the last of which is the call it
  answers, and either raises (\<open>Inl\<close>) or returns. The two formatting utilities are taken
  to return normally: the handler tests their results for emptiness and for
  \<^verbatim>\<open>null\<close>, which is how they report failure.
\<close>

record env =
  octokit :: bool   \<comment> \<open>whether the Octokit client passed in is an object\<close>
  chat_postMessage :: "call list \<Rightarrow> error + string option"   \<comment> \<open>the \<^verbatim>\<open>ts\<close> of the response\<close>
  chat_update :: "call list \<Rightarrow> error + unit"
  chat_delete :: "call list \<Rightarrow> error + unit"
  handleDeleteLastMessageCommand :: "call list \<Rightarrow> error + unit"
  handleReleaseInfoCommand :: "call list \<Rightarrow> error + bool"
  handlePrReviewCommand :: "call list \<Rightarrow> error + bool"
  handleIssueAnalysisCommand :: "call list \<Rightarrow> error + bool"
  handleGithubApiCommand :: "call list \<Rightarrow> error + bool"
  getAnythingLLMThreadMapping :: "call list \<Rightarrow> error + thread_mapping option"
  storeAnythingLLMThreadMapping :: "call list \<Rightarrow> error + unit"
  createNewAnythingLLMThread :: "call list \<Rightarrow> error + string option"
  determineWorkspace :: "call list \<Rightarrow> error + string option"
  detectIntentAndWorkspace :: "call list \<Rightarrow> error + intent_result"
  queryLlm :: "call list \<Rightarrow> error + string option"
      \<comment> \<open>\<open>None\<close>: the reply is not a string\<close>
  extractTextAndCode :: "string \<Rightarrow> segment list"
  markdownToRichTextBlock :: "string \<Rightarrow> string option"

definition perform :: "(call list \<Rightarrow> 'r) \<Rightarrow> call \<Rightarrow> world \<Rightarrow> 'r \<times> world" where
  "perform oracle c w = (let h = calls w @ [c] in (oracle h, w\<lparr>calls := h\<rparr>))"

definition console :: "level \<Rightarrow> string \<Rightarrow> logarg list \<Rightarrow> world \<Rightarrow> world" where
  "console l label args w = w\<lparr>logs := logs w @ [Log l label args]\<rparr>"

definition str_of :: "string option \<Rightarrow> string" where
  \<comment> \<open>a possibly absent value inside a template literal\<close>
  "str_of v = (case v of None \<Rightarrow> ''null'' | Some s \<Rightarrow> s)"

subsection \<open>Message texts\<close>

definition emoji_cross :: string where "emoji_cross = [CHR 0xE2, CHR 0x9D, CHR 0x8C]"
definition emoji_question :: string where "emoji_question = [CHR 0xE2, CHR 0x9D, CHR 0x93]"
definition emoji_construction :: string where
  "emoji_construction = [CHR 0xF0, CHR 0x9F, CHR 0x9A, CHR 0xA7]"
definition emoji_warning :: string where
  "emoji_warning = [CHR 0xE2, CHR 0x9A, CHR 0xA0, CHR 0xEF, CHR 0xB8, CHR 0x8F]"
definition emoji_thumbs_down :: string where
  "emoji_thumbs_down = [CHR 0xF0, CHR 0x9F, CHR 0x91, CHR 0x8E]"
definition emoji_ok_hand :: string where
  "emoji_ok_hand = [CHR 0xF0, CHR 0x9F, CHR 0x91, CHR 0x8C]"
definition emoji_thumbs_up :: string where
  "emoji_thumbs_up = [CHR 0xF0, CHR 0x9F, CHR 0x91, CHR 0x8D]"

definition processing_text :: string where
  "processing_text = '':hourglass_flowing_sand: Processing...''"

definition github_disabled_text :: string where
  "github_disabled_text = emoji_cross @ '' GitHub commands disabled (GITHUB_TOKEN not configured).''"

definition github_client_failed_text :: string where
  "github_client_failed_text =
     emoji_cross @ '' GitHub client failed to initialize (check token/config).''"

definition invalid_pr_format_text :: string where
  "invalid_pr_format_text =
     emoji_cross @ '' Invalid format. Use: `gh> review pr owner/repo#number #workspace`''"

definition invalid_issue_number_text :: string where
  "invalid_issue_number_text =
     emoji_cross @ '' Invalid issue number. Use format: `gh> analyze issue [#123 | owner/repo#123] [#optional-ws]`''"

definition issue_context_error_text :: "error \<Rightarrow> string" where
  "issue_context_error_text e =
     emoji_cross @ '' Error setting up context for issue analysis: '' @ err_message e"

definition unknown_command_text :: string where
  "unknown_command_text =
     emoji_question @ '' Unknown command. Try `gh> release ...`, `gh> review ...`, `gh> analyze ...`, or `gh> api ...`.''"

definition intent_stub_text :: "string \<Rightarrow> string" where
  "intent_stub_text i =
     emoji_construction @ '' Intent '' @ [CHR 0x27] @ i @ [CHR 0x27] @ '' handler not implemented yet.''"

definition thinking_in_text :: "string option \<Rightarrow> string" where
  "thinking_in_text ws = '':brain: Thinking in workspace `'' @ str_of ws @ ''`...''"

definition oops_text :: "error \<Rightarrow> string" where
  "oops_text e = emoji_warning @ '' Oops! An error occurred: '' @ err_message e"

definition empty_response_text :: string where
  "empty_response_text = ''_(I received an empty response. Please try rephrasing your query.)_''"

definition llm_instruction :: string where
  "llm_instruction =
     [CHR 0x0A, CHR 0x0A] @ ''IMPORTANT: Provide a clean answer without referencing internal context markers (like ''
     @ [CHR 0x22] @ ''CONTEXT N'' @ [CHR 0x22]
     @ ''). Format your response using Slack markdown (bold, italics, code blocks, links).''"

definition feedbackButtons :: "button list" where
  "feedbackButtons =
     [\<lparr>btn_text = emoji_thumbs_down, btn_style = Some ''danger'', btn_value = ''bad'',
        btn_action_id = ''feedback_bad''\<rparr>,
      \<lparr>btn_text = emoji_ok_hand, btn_style = None, btn_value = ''ok'',
        btn_action_id = ''feedback_ok''\<rparr>,
      \<lparr>btn_text = emoji_thumbs_up, btn_style = Some ''primary'', btn_value = ''great'',
        btn_action_id = ''feedback_great''\<rparr>]"


subsection \<open>\<^verbatim>\<open>updateOrDeleteThinkingMessage\<close> (lines 65 to 86)\<close>

definition benign :: "error \<Rightarrow> bool" where
  "benign e = (err_data e = Some ''message_not_found'' \<or> err_data e = Some ''cant_update_message'')"

definition updateOrDeleteThinkingMessage ::
  "env \<Rightarrow> string option \<Rightarrow> string \<Rightarrow> string option \<Rightarrow> world \<Rightarrow> world" where
  \<comment> \<open>\<open>updateArgs\<close> is the text of \<^verbatim>\<open>{ text: ... }\<close>, or \<open>None\<close> to delete. The Slack
      client is an object: the handler has already posted through it.\<close>
  "updateOrDeleteThinkingMessage env thinkingMessageTs channel updateArgs w =
     (case thinkingMessageTs of
        None \<Rightarrow> w
      | Some ts \<Rightarrow>
          if ts = [] then w
          else if channel = [] then
            console Err ''[Util/updateOrDeleteThinkingMessage] Missing Slack client or channel ID.'' [] w
          else
            (case (case updateArgs of
                     Some text \<Rightarrow> perform (chat_update env) (ChatUpdate channel ts text) w
                   | None \<Rightarrow> perform (chat_delete env) (ChatDelete channel ts) w) of
               (Inr u, w') \<Rightarrow> w'
             | (Inl error, w') \<Rightarrow>
                 if benign error then w'
                 else console Warn
                        (if updateArgs \<noteq> None then ''[Util] Failed to update thinking message''
                         else ''[Util] Failed to delete thinking message'')
                        [ArgText ts, ArgText (error_text error)] w'))"

subsection \<open>The handler, block by block\<close>

text \<open>
  A block of the handler ends in one of three ways: it falls through to the next
  statement with a value, it executes \<^verbatim>\<open>return\<close>, or it throws.
\<close>

datatype 'a flow = Continue 'a | Returned | Threw error

definition cleanedQuery_of :: "config \<Rightarrow> slack_event \<Rightarrow> string" where
  \<comment> \<open>lines 98 to 104\<close>
  "cleanedQuery_of cfg event =
     (let originalText = (case ev_text event of None \<Rightarrow> [] | Some t \<Rightarrow> t);
          rawQuery = trim originalText;
          mentionString = ''<@'' @ botUserId cfg @ ''>''
      in trim (remove_first mentionString rawQuery))"

definition replyTarget_of :: "slack_event \<Rightarrow> string" where
  \<comment> \<open>line 105: \<^verbatim>\<open>threadTs || originalTs\<close>\<close>
  "replyTarget_of event =
     (case ev_thread_ts event of
        None \<Rightarrow> ev_ts event
      | Some t \<Rightarrow> if t \<noteq> [] then t else ev_ts event)"

definition text_message :: "string \<Rightarrow> string \<Rightarrow> string \<Rightarrow> post_args" where
  "text_message channelId replyTarget t =
     \<lparr>p_channel = channelId, p_thread_ts = replyTarget, p_text = t, p_blocks = None\<rparr>"

definition post_thinking :: "env \<Rightarrow> string \<Rightarrow> string \<Rightarrow> world \<Rightarrow> string option \<times> world" where
  \<comment> \<open>lines 123 to 131; \<open>None\<close> is the \<^verbatim>\<open>return\<close> of the catch block\<close>
  "post_thinking env channelId replyTarget w =
     (case perform (chat_postMessage env)
             (ChatPostMessage (text_message channelId replyTarget processing_text)) w of
        (Inl err, w') \<Rightarrow>
          (None, console Err ''[Msg Handler] Failed post initial thinking message:''
                   [ArgText (error_text err)] w')
      | (Inr thinkingMessageTs, w') \<Rightarrow>
          if truthy thinkingMessageTs then (thinkingMessageTs, w')
          else (None, console Err ''[Msg Handler] Failed post initial thinking message:''
                        [ArgText ''Failed to get timestamp from thinking message response.''] w'))"

definition isPotentialGhCommand :: "config \<Rightarrow> string \<Rightarrow> bool" where
  \<comment> \<open>line 135\<close>
  "isPotentialGhCommand cfg cleanedQuery =
     startsWith (toLowerCase cleanedQuery) (COMMAND_PREFIX cfg)"

definition release_block ::
  "env \<Rightarrow> config \<Rightarrow> slack_event \<Rightarrow> string \<Rightarrow> string \<Rightarrow> string \<Rightarrow> world \<Rightarrow> bool flow \<times> world" where
  \<comment> \<open>lines 151 to 155\<close>
  "release_block env cfg event cleanedQuery replyTarget thinkingMessageTs w =
     (case regex_match (RELEASE_REGEX (COMMAND_PREFIX cfg)) cleanedQuery of
        None \<Rightarrow> (Continue False, w)
      | Some g \<Rightarrow>
          if truthy (group g ''repo_id'') then
            (case perform (handleReleaseInfoCommand env)
                    (HandleReleaseInfoCommand (str_of (group g ''repo_id'')) replyTarget
                       thinkingMessageTs (ev_channel event)) w of
               (Inl e, w') \<Rightarrow> (Threw e, w')
             | (Inr commandHandled, w') \<Rightarrow> (Continue commandHandled, w'))
          else (Continue False, w))"

definition pr_review_dispatch ::
  "env \<Rightarrow> slack_event \<Rightarrow> string \<Rightarrow> string \<Rightarrow> groups \<Rightarrow> world \<Rightarrow> bool flow \<times> world" where
  \<comment> \<open>lines 161 to 170, entered with \<^verbatim>\<open>match.groups\<close>\<close>
  "pr_review_dispatch env event replyTarget thinkingMessageTs g w =
     (let owner = group g ''owner''; repo = group g ''repo'';
          pr_number = group g ''pr_number''; workspace_slug = group g ''workspace_slug'';
          prNum = parseInt10 pr_number
      in if truthy owner \<and> truthy repo \<and> prNum \<noteq> NaN \<and> truthy workspace_slug then
           (case perform (handlePrReviewCommand env)
                   (HandlePrReviewCommand (str_of owner) (str_of repo) prNum (str_of workspace_slug)
                      replyTarget (ev_channel event) thinkingMessageTs) w of
              (Inl e, w') \<Rightarrow> (Threw e, w')
            | (Inr commandHandled, w') \<Rightarrow> (Continue commandHandled, w'))
         else
           (Continue True,
            updateOrDeleteThinkingMessage env (Some thinkingMessageTs) (ev_channel event)
              (Some invalid_pr_format_text)
              (console Warn ''[Msg Handler] Invalid PR Review params:'' [ArgGroups g] w)))"

definition pr_review_block ::
  "env \<Rightarrow> config \<Rightarrow> slack_event \<Rightarrow> string \<Rightarrow> string \<Rightarrow> string \<Rightarrow> world \<Rightarrow> bool flow \<times> world" where
  \<comment> \<open>lines 159 to 171\<close>
  "pr_review_block env cfg event cleanedQuery replyTarget thinkingMessageTs w =
     (case regex_match (PR_REVIEW_REGEX (COMMAND_PREFIX cfg)) cleanedQuery of
        None \<Rightarrow> (Continue False, w)
      | Some g \<Rightarrow> pr_review_dispatch env event replyTarget thinkingMessageTs g w)"

definition create_thread_if_missing ::
  "env \<Rightarrow> slack_event \<Rightarrow> string \<Rightarrow> string option \<Rightarrow> string option \<Rightarrow> world
     \<Rightarrow> (error + string option \<times> string option) \<times> world" where
  \<comment> \<open>lines 203 to 211; the result is the pair of \<^verbatim>\<open>llmWs\<close> and \<^verbatim>\<open>llmThread\<close>\<close>
  "create_thread_if_missing env event replyTarget llmWs llmThread w =
     (if \<not> truthy llmThread \<and> truthy llmWs then
        (case perform (createNewAnythingLLMThread env) (CreateNewAnythingLLMThread llmWs) w of
           (Inl e, w1) \<Rightarrow> (Inl e, w1)
         | (Inr newThread, w1) \<Rightarrow>
             if \<not> truthy newThread then
               (Inl (Error (''Failed to create thread in '' @ str_of llmWs @ ''.'')), w1)
             else
               (case perform (storeAnythingLLMThreadMapping env)
                       (StoreAnythingLLMThreadMapping (ev_channel event) replyTarget llmWs newThread)
                       w1 of
                  (Inl e, w2) \<Rightarrow> (Inl e, w2)
                | (Inr u, w2) \<Rightarrow> (Inr (llmWs, newThread), w2)))
      else if \<not> truthy llmWs then
        (Inl (Error ''Workspace could not be determined for thread creation.''), w)
      else (Inr (llmWs, llmThread), w))"

definition issue_context ::
  "env \<Rightarrow> slack_event \<Rightarrow> string \<Rightarrow> string option \<Rightarrow> world
     \<Rightarrow> (error + string option \<times> string option) \<times> world" where
  \<comment> \<open>lines 183 to 211\<close>
  "issue_context env event replyTarget explicitWs w =
     (case perform (getAnythingLLMThreadMapping env)
             (GetAnythingLLMThreadMapping (ev_channel event) replyTarget) w of
        (Inl e, w1) \<Rightarrow> (Inl e, w1)
      | (Inr (Some mapping), w1) \<Rightarrow>
          create_thread_if_missing env event replyTarget
            (if truthy explicitWs then explicitWs else anythingllm_workspace_slug mapping)
            (anythingllm_thread_slug mapping) w1
      | (Inr None, w1) \<Rightarrow>
          (case (if truthy explicitWs then (Inr explicitWs, w1)
                 else perform (determineWorkspace env)
                        (DetermineWorkspace None (ev_user event) (ev_channel event)) w1) of
             (Inl e, w2) \<Rightarrow> (Inl e, w2)
           | (Inr llmWs, w2) \<Rightarrow>
               if \<not> truthy llmWs then
                 (Inl (Error ''Could not determine target workspace for issue analysis.''), w2)
               else create_thread_if_missing env event replyTarget llmWs None w2))"

definition issue_try ::
  "env \<Rightarrow> config \<Rightarrow> slack_event \<Rightarrow> string \<Rightarrow> string \<Rightarrow> groups \<Rightarrow> number \<Rightarrow> world
     \<Rightarrow> (error + bool) \<times> world" where
  \<comment> \<open>the \<^verbatim>\<open>try\<close> block of lines 185 to 212: context setup, then the executor\<close>
  "issue_try env cfg event replyTarget thinkingMessageTs g issueNum w =
     (let owner = (case group g ''owner'' of None \<Rightarrow> GITHUB_OWNER cfg | Some s \<Rightarrow> s);
          repo = (case group g ''repo'' of None \<Rightarrow> ''backlog'' | Some s \<Rightarrow> s);
          explicitWs = group g ''workspace_slug'';
          user_prompt = group g ''user_prompt''
      in case issue_context env event replyTarget explicitWs w of
           (Inl e, w1) \<Rightarrow> (Inl e, w1)
         | (Inr (llmWs, llmThread), w1) \<Rightarrow>
             perform (handleIssueAnalysisCommand env)
               (HandleIssueAnalysisCommand owner repo issueNum
                  (if truthy user_prompt then user_prompt else None)
                  replyTarget (ev_channel event) thinkingMessageTs llmWs llmThread) w1)"

definition issue_analysis_dispatch ::
  "env \<Rightarrow> config \<Rightarrow> slack_event \<Rightarrow> string \<Rightarrow> string \<Rightarrow> groups \<Rightarrow> world \<Rightarrow> bool flow \<times> world" where
  \<comment> \<open>lines 178 to 222, entered with \<^verbatim>\<open>match.groups\<close>\<close>
  "issue_analysis_dispatch env cfg event replyTarget thinkingMessageTs g w =
     (let issueNum = parseInt10 (group g ''issue_number'')
      in if issueNum \<noteq> NaN then
           (case issue_try env cfg event replyTarget thinkingMessageTs g issueNum w of
              (Inr commandHandled, w2) \<Rightarrow> (Continue commandHandled, w2)
            | (Inl contextError, w2) \<Rightarrow>
                (Continue True,
                 updateOrDeleteThinkingMessage env (Some thinkingMessageTs) (ev_channel event)
                   (Some (issue_context_error_text contextError))
                   (console Err ''[Msg Handler-IssueCmd] Context/Thread Setup Error:''
                      [ArgError contextError] w2)))
         else
           (Continue True,
            updateOrDeleteThinkingMessage env (Some thinkingMessageTs) (ev_channel event)
              (Some invalid_issue_number_text)
              (console Warn ''[Msg Handler] Invalid Issue Analysis number:''
                 [ArgText (str_of (group g ''issue_number''))] w)))"

definition issue_analysis_block ::
  "env \<Rightarrow> config \<Rightarrow> slack_event \<Rightarrow> string \<Rightarrow> string \<Rightarrow> string \<Rightarrow> world \<Rightarrow> bool flow \<times> world" where
  \<comment> \<open>lines 176 to 223\<close>
  "issue_analysis_block env cfg event cleanedQuery replyTarget thinkingMessageTs w =
     (case regex_match (ISSUE_ANALYSIS_REGEX (COMMAND_PREFIX cfg)) cleanedQuery of
        None \<Rightarrow> (Continue False, w)
      | Some g \<Rightarrow> issue_analysis_dispatch env cfg event replyTarget thinkingMessageTs g w)"

definition generic_api_block ::
  "env \<Rightarrow> config \<Rightarrow> slack_event \<Rightarrow> string \<Rightarrow> string \<Rightarrow> string \<Rightarrow> world \<Rightarrow> bool flow \<times> world" where
  \<comment> \<open>lines 228 to 232\<close>
  "generic_api_block env cfg event cleanedQuery replyTarget thinkingMessageTs w =
     (case regex_match (GENERIC_API_REGEX (COMMAND_PREFIX cfg)) cleanedQuery of
        None \<Rightarrow> (Continue False, w)
      | Some g \<Rightarrow>
          if truthy (group g ''api_query'') then
            (case perform (handleGithubApiCommand env)
                    (HandleGithubApiCommand (str_of (group g ''api_query'')) replyTarget
                       (ev_channel event) thinkingMessageTs (githubWorkspaceSlug cfg)
                       (formatterWorkspaceSlug cfg)) w of
               (Inl e, w') \<Rightarrow> (Threw e, w')
             | (Inr commandHandled, w') \<Rightarrow> (Continue commandHandled, w'))
          else (Continue False, w))"

definition unknown_command_block ::
  "env \<Rightarrow> config \<Rightarrow> slack_event \<Rightarrow> string \<Rightarrow> string \<Rightarrow> world \<Rightarrow> bool flow \<times> world" where
  \<comment> \<open>lines 236 to 240\<close>
  "unknown_command_block env cfg event cleanedQuery thinkingMessageTs w =
     (Continue True,
      updateOrDeleteThinkingMessage env (Some thinkingMessageTs) (ev_channel event)
        (Some unknown_command_text)
        (console Warn ''[Msg Handler] Unknown command starting with the command prefix:''
           [ArgText (COMMAND_PREFIX cfg), ArgText cleanedQuery] w))"

definition unless_handled ::
  "(world \<Rightarrow> bool flow \<times> world) \<Rightarrow> bool flow \<times> world \<Rightarrow> bool flow \<times> world" where
  \<comment> \<open>\<^verbatim>\<open>if (!commandHandled) { ... }\<close> after the statements that gave \<open>r\<close>\<close>
  "unless_handled block r =
     (case r of (Continue commandHandled, w) \<Rightarrow> if \<not> commandHandled then block w else r | _ \<Rightarrow> r)"

definition github_commands ::
  "env \<Rightarrow> config \<Rightarrow> slack_event \<Rightarrow> string \<Rightarrow> string \<Rightarrow> string \<Rightarrow> world \<Rightarrow> bool flow \<times> world" where
  \<comment> \<open>lines 134 to 241; the value is \<^verbatim>\<open>commandHandled\<close>\<close>
  "github_commands env cfg event cleanedQuery replyTarget thinkingMessageTs w =
     (if isPotentialGhCommand cfg cleanedQuery then
        if \<not> truthy (githubToken cfg) then
          (Returned, updateOrDeleteThinkingMessage env (Some thinkingMessageTs) (ev_channel event)
                       (Some github_disabled_text) w)
        else if \<not> octokit env then
          (Returned, updateOrDeleteThinkingMessage env (Some thinkingMessageTs) (ev_channel event)
                       (Some github_client_failed_text) w)
        else
          unless_handled (unknown_command_block env cfg event cleanedQuery thinkingMessageTs)
            (unless_handled (generic_api_block env cfg event cleanedQuery replyTarget thinkingMessageTs)
               (unless_handled (issue_analysis_block env cfg event cleanedQuery replyTarget thinkingMessageTs)
                  (unless_handled (pr_review_block env cfg event cleanedQuery replyTarget thinkingMessageTs)
                     (release_block env cfg event cleanedQuery replyTarget thinkingMessageTs w))))
      else (Continue False, w))"


subsection \<open>The fallback: intent detection, routing, query (lines 244 to 432)\<close>

definition intentContext :: "error + unit" where
  \<comment> \<open>lines 262 to 267: the object literal has the shorthand property \<^verbatim>\<open>intentResult\<close>, and
      no binding of that name exists in the module (the result of the detection is held
      by \<^verbatim>\<open>intentDetectionResult\<close>), so evaluating the literal throws a ReferenceError\<close>
  "intentContext = Inl (Error ''intentResult is not defined'')"

definition intent_switch ::
  "env \<Rightarrow> slack_event \<Rightarrow> string \<Rightarrow> string \<Rightarrow> world \<Rightarrow> bool \<times> world" where
  \<comment> \<open>lines 269 to 290; the value is \<^verbatim>\<open>intentHandled\<close>\<close>
  "intent_switch env event thinkingMessageTs i w =
     (if i = ''github_issue_lookup'' then
        (True, updateOrDeleteThinkingMessage env (Some thinkingMessageTs) (ev_channel event)
                 (Some (intent_stub_text i))
                 (console Warn ''Placeholder: `handleGithubLookupIntent` not implemented.'' [] w))
      else if i = ''ask_faq'' then
        (True, updateOrDeleteThinkingMessage env (Some thinkingMessageTs) (ev_channel event)
                 (Some (intent_stub_text i))
                 (console Warn ''Placeholder: `handleFaqIntent` not implemented.'' [] w))
      else (False, w))"

definition intent_routing ::
  "env \<Rightarrow> config \<Rightarrow> slack_event \<Rightarrow> string \<Rightarrow> intent_result \<Rightarrow> world \<Rightarrow> (error + bool) \<times> world" where
  \<comment> \<open>lines 259 to 299; the value is \<^verbatim>\<open>intentHandled\<close>\<close>
  "intent_routing env cfg event thinkingMessageTs r w =
     (if intentRoutingEnabled cfg \<and> truthy (intent r)
         \<and> confidence r \<ge> intentConfidenceThreshold cfg then
        (case intentContext of
           Inl e \<Rightarrow> (Inl e, w)
         | Inr c \<Rightarrow>
             (case intent_switch env event thinkingMessageTs (str_of (intent r)) w of
                (intentHandled, w') \<Rightarrow> (Inr intentHandled, w')))
      else (Inr False, w))"

definition mapping_for :: "thread_mapping option \<Rightarrow> string option \<Rightarrow> thread_mapping option" where
  \<comment> \<open>line 320: the mapping when \<^verbatim>\<open>mapping && mapping.anythingllm_workspace_slug === finalWorkspaceSlug\<close>\<close>
  "mapping_for mapping finalWorkspaceSlug =
     (case mapping of
        None \<Rightarrow> None
      | Some m \<Rightarrow> if anythingllm_workspace_slug m = finalWorkspaceSlug then Some m else None)"

definition resolve_thread ::
  "env \<Rightarrow> slack_event \<Rightarrow> string \<Rightarrow> string option \<Rightarrow> world \<Rightarrow> (error + string option) \<times> world" where
  \<comment> \<open>lines 318 to 332; the value is \<^verbatim>\<open>anythingLLMThreadSlug\<close>\<close>
  "resolve_thread env event replyTarget finalWorkspaceSlug w =
     (case perform (getAnythingLLMThreadMapping env)
             (GetAnythingLLMThreadMapping (ev_channel event) replyTarget) w of
        (Inl e, w1) \<Rightarrow> (Inl e, w1)
      | (Inr mapping, w1) \<Rightarrow>
          (case mapping_for mapping finalWorkspaceSlug of
             Some m \<Rightarrow> (Inr (anythingllm_thread_slug m), w1)
           | None \<Rightarrow>
               (case perform (createNewAnythingLLMThread env)
                       (CreateNewAnythingLLMThread finalWorkspaceSlug) w1 of
                  (Inl e, w2) \<Rightarrow> (Inl e, w2)
                | (Inr anythingLLMThreadSlug, w2) \<Rightarrow>
                    if \<not> truthy anythingLLMThreadSlug then
                      (Inl (Error (''Failed to create new thread in workspace ''
                                   @ str_of finalWorkspaceSlug
                                   @ ''. Check LLM API status and workspace slug validity.'')), w2)
                    else
                      (case perform (storeAnythingLLMThreadMapping env)
                              (StoreAnythingLLMThreadMapping (ev_channel event) replyTarget
                                 finalWorkspaceSlug anythingLLMThreadSlug) w2 of
                         (Inl e, w3) \<Rightarrow> (Inl e, w3)
                       | (Inr u, w3) \<Rightarrow> (Inr anythingLLMThreadSlug, w3)))))"

definition segment_texts :: "segment \<Rightarrow> string \<times> string" where
  \<comment> \<open>lines 374 to 383: \<^verbatim>\<open>segmentText\<close> and \<^verbatim>\<open>fallbackText\<close>\<close>
  "segment_texts sg =
     (let content = (case seg_content sg of None \<Rightarrow> [] | Some c \<Rightarrow> trim c)
      in if seg_type sg = ''text'' \<and> content \<noteq> [] then (content, substring_0_200 content)
         else if seg_type sg = ''code'' \<and> content \<noteq> [] then
           (let lang = (if truthy (seg_language sg) then str_of (seg_language sg) else [])
            in (''```'' @ lang @ [CHR 0x0A] @ content @ [CHR 0x0A] @ ''```'',
                ''Code block ('' @ (if lang \<noteq> [] then lang else ''unknown'') @ '')''))
         else ([], ''...''))"

definition post_one_segment ::
  "env \<Rightarrow> string \<Rightarrow> string \<Rightarrow> nat \<Rightarrow> string \<Rightarrow> string \<Rightarrow> string option \<Rightarrow> world
     \<Rightarrow> string option \<times> world" where
  \<comment> \<open>lines 385 to 395 for segment \<open>i\<close>; takes and gives \<^verbatim>\<open>lastMessageTs\<close>\<close>
  "post_one_segment env channelId replyTarget i segmentText fallbackText lastMessageTs w =
     (let block = markdownToRichTextBlock env segmentText;
          postArgs = (case block of
                        Some b \<Rightarrow> \<lparr>p_channel = channelId, p_thread_ts = replyTarget,
                                   p_text = fallbackText, p_blocks = Some (RichText b)\<rparr>
                      | None \<Rightarrow> text_message channelId replyTarget segmentText);
          w0 = (if block = None
                then console Warn ''[Msg Handler] Failed block for seg. Posting raw.'' [ArgNat (i + 1)] w
                else w)
      in case perform (chat_postMessage env) (ChatPostMessage postArgs) w0 of
           (Inr res, w1) \<Rightarrow> (res, w1)
         | (Inl e, w1) \<Rightarrow>
             (let w2 = console Err ''[Msg Handler] Error posting seg''
                         [ArgNat (i + 1), ArgBool (block \<noteq> None), ArgText (error_text e)] w1
              in if block \<noteq> None then
                   (case perform (chat_postMessage env)
                           (ChatPostMessage (text_message channelId replyTarget segmentText)) w2 of
                      (Inr res, w3) \<Rightarrow> (res, w3)
                    | (Inl e2, w3) \<Rightarrow> (lastMessageTs, w3))
                 else (lastMessageTs, w2)))"

fun post_segments ::
  "env \<Rightarrow> string \<Rightarrow> string \<Rightarrow> nat \<Rightarrow> segment list \<Rightarrow> string option \<Rightarrow> world
     \<Rightarrow> string option \<times> world" where
  \<comment> \<open>the loop of lines 371 to 397 from index \<open>i\<close> on, over the segments still to post\<close>
  "post_segments env channelId replyTarget i [] lastMessageTs w = (lastMessageTs, w)"
| "post_segments env channelId replyTarget i (sg # rest) lastMessageTs w =
     (if fst (segment_texts sg) = [] then
        post_segments env channelId replyTarget (Suc i) rest lastMessageTs w
      else
        (case post_one_segment env channelId replyTarget i (fst (segment_texts sg))
                (snd (segment_texts sg)) lastMessageTs w of
           (lastMessageTs', w1) \<Rightarrow>
             post_segments env channelId replyTarget (Suc i) rest lastMessageTs'
               (if rest \<noteq> [] then w1\<lparr>calls := calls w1 @ [Delay 500]\<rparr> else w1)))"

definition raw_reply_message :: "env \<Rightarrow> string \<Rightarrow> string \<Rightarrow> string \<Rightarrow> post_args" where
  \<comment> \<open>lines 363 to 368: the later \<^verbatim>\<open>text\<close> of the object literal replaces the earlier one\<close>
  "raw_reply_message env channelId replyTarget trimmedReply =
     (case markdownToRichTextBlock env trimmedReply of
        Some b \<Rightarrow> \<lparr>p_channel = channelId, p_thread_ts = replyTarget,
                   p_text = substring_0_200 trimmedReply, p_blocks = Some (RichText b)\<rparr>
      | None \<Rightarrow> text_message channelId replyTarget trimmedReply)"

definition post_raw_reply ::
  "env \<Rightarrow> string \<Rightarrow> string \<Rightarrow> string \<Rightarrow> world \<Rightarrow> (error + string option) \<times> world" where
  \<comment> \<open>lines 362 to 369\<close>
  "post_raw_reply env channelId replyTarget trimmedReply w =
     perform (chat_postMessage env)
       (ChatPostMessage (raw_reply_message env channelId replyTarget trimmedReply))
       (console Warn ''[Msg Handler] No segments extracted from non-empty reply, posting raw trimmed reply.''
          [] w)"

definition reply_posting ::
  "env \<Rightarrow> slack_event \<Rightarrow> string \<Rightarrow> string \<Rightarrow> world \<Rightarrow> (error + string option) \<times> world" where
  \<comment> \<open>lines 358 to 398; the value is \<^verbatim>\<open>lastMessageTs\<close>\<close>
  "reply_posting env event replyTarget trimmedReply w =
     (let segments = extractTextAndCode env trimmedReply
      in if segments = [] then post_raw_reply env (ev_channel event) replyTarget trimmedReply w
         else (case post_segments env (ev_channel event) replyTarget 0 segments None w of
                 (lastMessageTs, w1) \<Rightarrow> (Inr lastMessageTs, w1)))"

definition feedback_message :: "slack_event \<Rightarrow> string \<Rightarrow> string option \<Rightarrow> post_args" where
  \<comment> \<open>lines 403 to 412\<close>
  "feedback_message event replyTarget finalWorkspaceSlug =
     \<lparr>p_channel = ev_channel event, p_thread_ts = replyTarget,
      p_text = ''Was this response helpful?'',
      p_blocks = Some (Feedback (''feedback_'' @ ev_ts event @ ''_'' @ str_of finalWorkspaceSlug)
                         feedbackButtons)\<rparr>"

definition post_feedback ::
  "env \<Rightarrow> slack_event \<Rightarrow> string \<Rightarrow> string option \<Rightarrow> string option \<Rightarrow> bool \<Rightarrow> world \<Rightarrow> world" where
  \<comment> \<open>lines 401 to 414\<close>
  "post_feedback env event replyTarget finalWorkspaceSlug lastMessageTs isSubstantive w =
     (if truthy lastMessageTs \<and> isSubstantive then
        (case perform (chat_postMessage env)
                (ChatPostMessage (feedback_message event replyTarget finalWorkspaceSlug)) w of
           (Inr res, w1) \<Rightarrow> w1
         | (Inl e, w1) \<Rightarrow>
             console Warn ''[Msg Handler] Failed post feedback buttons:'' [ArgText (error_text e)] w1)
      else w)"

definition post_reply ::
  "env \<Rightarrow> config \<Rightarrow> slack_event \<Rightarrow> string \<Rightarrow> string option \<Rightarrow> string \<Rightarrow> world
     \<Rightarrow> (error + unit) \<times> world" where
  \<comment> \<open>lines 349 to 415\<close>
  "post_reply env cfg event replyTarget finalWorkspaceSlug trimmedReply w =
     (if trimmedReply = [] then
        (case perform (chat_postMessage env)
                (ChatPostMessage (text_message (ev_channel event) replyTarget empty_response_text)) w of
           (Inl e, w1) \<Rightarrow> (Inl e, w1)
         | (Inr res, w1) \<Rightarrow> (Inr (), w1))
      else
        (let isSubstantive = (int (length trimmedReply) \<ge> MIN_SUBSTANTIVE_RESPONSE_LENGTH cfg)
         in case reply_posting env event replyTarget trimmedReply w of
              (Inl e, w1) \<Rightarrow> (Inl e, w1)
            | (Inr lastMessageTs, w1) \<Rightarrow>
                (Inr (), post_feedback env event replyTarget finalWorkspaceSlug lastMessageTs
                           isSubstantive w1)))"

definition llmInputText_of :: "config \<Rightarrow> string \<Rightarrow> string" where
  \<comment> \<open>lines 337 to 339\<close>
  "llmInputText_of cfg cleanedQuery =
     trim (replace_by_empty (WORKSPACE_OVERRIDE_REGEX cfg) cleanedQuery) @ llm_instruction"

definition llm_query_path ::
  "env \<Rightarrow> config \<Rightarrow> slack_event \<Rightarrow> string \<Rightarrow> string \<Rightarrow> string \<Rightarrow> string option \<Rightarrow> world
     \<Rightarrow> (error + unit) \<times> string option \<times> world" where
  \<comment> \<open>lines 303 to 415; the middle component is \<^verbatim>\<open>thinkingMessageTs\<close> as the block
      leaves it\<close>
  "llm_query_path env cfg event cleanedQuery replyTarget thinkingMessageTs suggested w =
     (case perform (determineWorkspace env)
             (DetermineWorkspace suggested (ev_user event) (ev_channel event)) w of
        (Inl e, w1) \<Rightarrow> (Inl e, Some thinkingMessageTs, w1)
      | (Inr finalWorkspaceSlug, w1) \<Rightarrow>
          if \<not> truthy finalWorkspaceSlug then
            (Inl (Error ''Could not determine a valid workspace. Check configuration (mappings, fallback) and LLM workspace availability.''),
             Some thinkingMessageTs, w1)
          else
            (case resolve_thread env event replyTarget finalWorkspaceSlug w1 of
               (Inl e, w2) \<Rightarrow> (Inl e, Some thinkingMessageTs, w2)
             | (Inr anythingLLMThreadSlug, w2) \<Rightarrow>
                 (let w3 = updateOrDeleteThinkingMessage env (Some thinkingMessageTs)
                             (ev_channel event) (Some (thinking_in_text finalWorkspaceSlug)) w2;
                      llmInputText = llmInputText_of cfg cleanedQuery
                  in case perform (queryLlm env)
                            (QueryLlm finalWorkspaceSlug anythingLLMThreadSlug llmInputText) w3 of
                       (Inl e, w4) \<Rightarrow> (Inl e, Some thinkingMessageTs, w4)
                     | (Inr rawReply, w4) \<Rightarrow>
                         (let trimmedReply = (case rawReply of None \<Rightarrow> [] | Some r \<Rightarrow> trim r);
                              w5 = updateOrDeleteThinkingMessage env (Some thinkingMessageTs)
                                     (ev_channel event) None w4
                          in case post_reply env cfg event replyTarget finalWorkspaceSlug
                                    trimmedReply w5 of
                               (r, w6) \<Rightarrow> (r, None, w6)))))"

definition intent_and_llm_try ::
  "env \<Rightarrow> config \<Rightarrow> slack_event \<Rightarrow> string \<Rightarrow> string \<Rightarrow> string \<Rightarrow> world
     \<Rightarrow> (error + unit) \<times> string option \<times> world" where
  \<comment> \<open>the \<^verbatim>\<open>try\<close> block, lines 252 to 416\<close>
  "intent_and_llm_try env cfg event cleanedQuery replyTarget thinkingMessageTs w =
     (case perform (detectIntentAndWorkspace env) (DetectIntentAndWorkspace cleanedQuery) w of
        (Inl e, w1) \<Rightarrow> (Inl e, Some thinkingMessageTs, w1)
      | (Inr r, w1) \<Rightarrow>
          (case intent_routing env cfg event thinkingMessageTs r w1 of
             (Inl e, w2) \<Rightarrow> (Inl e, Some thinkingMessageTs, w2)
           | (Inr intentHandled, w2) \<Rightarrow>
               if \<not> intentHandled then
                 llm_query_path env cfg event cleanedQuery replyTarget thinkingMessageTs
                   (suggestedWorkspace r) w2
               else (Inr (), Some thinkingMessageTs, w2)))"

definition catch_block ::
  "env \<Rightarrow> slack_event \<Rightarrow> string \<Rightarrow> error \<Rightarrow> string option \<Rightarrow> world \<Rightarrow> string option \<times> world" where
  \<comment> \<open>lines 418 to 425; takes and gives \<^verbatim>\<open>thinkingMessageTs\<close>\<close>
  "catch_block env event replyTarget error thinkingMessageTs w =
     (let w1 = console Err ''[Msg Handler Error - Intent/LLM Path]'' [ArgError error] w
      in if truthy thinkingMessageTs then
           (None, updateOrDeleteThinkingMessage env thinkingMessageTs (ev_channel event)
                    (Some (oops_text error)) w1)
         else
           (thinkingMessageTs,
            snd (perform (chat_postMessage env)
                   (ChatPostMessage (text_message (ev_channel event) replyTarget (oops_text error)))
                   w1)))"

definition finally_block :: "env \<Rightarrow> slack_event \<Rightarrow> string option \<Rightarrow> world \<Rightarrow> world" where
  \<comment> \<open>lines 426 to 432\<close>
  "finally_block env event thinkingMessageTs w =
     (if truthy thinkingMessageTs then
        updateOrDeleteThinkingMessage env thinkingMessageTs (ev_channel event) None w
      else w)"

definition fallback ::
  "env \<Rightarrow> config \<Rightarrow> slack_event \<Rightarrow> string \<Rightarrow> string \<Rightarrow> string \<Rightarrow> world \<Rightarrow> world" where
  \<comment> \<open>lines 244 to 432: \<^verbatim>\<open>try\<close>, \<^verbatim>\<open>catch\<close>, \<^verbatim>\<open>finally\<close>; nothing is thrown past it\<close>
  "fallback env cfg event cleanedQuery replyTarget thinkingMessageTs w =
     (case intent_and_llm_try env cfg event cleanedQuery replyTarget thinkingMessageTs w of
        (Inr u, ts1, w1) \<Rightarrow> finally_block env event ts1 w1
      | (Inl error, ts1, w1) \<Rightarrow>
          (case catch_block env event replyTarget error ts1 w1 of
             (ts2, w2) \<Rightarrow> finally_block env event ts2 w2))"

subsection \<open>\<^verbatim>\<open>handleSlackMessageEventInternal\<close> (lines 96 to 436)\<close>

definition handleSlackMessageEventInternal ::
  "env \<Rightarrow> config \<Rightarrow> slack_event \<Rightarrow> world \<Rightarrow> (error + unit) \<times> world" where
  \<comment> \<open>\<open>Inr ()\<close>: the promise resolves; \<open>Inl e\<close>: it rejects with \<open>e\<close>\<close>
  "handleSlackMessageEventInternal env cfg event w =
     (let cleanedQuery = cleanedQuery_of cfg event;
          replyTarget = replyTarget_of event
      in if cleanedQuery = [] then (Inr (), w)
         else if startsWith (toLowerCase cleanedQuery) ''#delete_last_message'' then
           perform (handleDeleteLastMessageCommand env)
             (HandleDeleteLastMessageCommand (ev_channel event) replyTarget (botUserId cfg)) w
         else
           (case post_thinking env (ev_channel event) replyTarget w of
              (None, w1) \<Rightarrow> (Inr (), w1)
            | (Some thinkingMessageTs, w1) \<Rightarrow>
                (case github_commands env cfg event cleanedQuery replyTarget thinkingMessageTs w1 of
                   (Returned, w2) \<Rightarrow> (Inr (), w2)
                 | (Threw e, w2) \<Rightarrow> (Inl e, w2)
                 | (Continue commandHandled, w2) \<Rightarrow>
                     if \<not> commandHandled then
                       (Inr (), fallback env cfg event cleanedQuery replyTarget thinkingMessageTs w2)
                     else (Inr (), w2))))"


subsection \<open>Observing a run\<close>

definition new_calls :: "world \<Rightarrow> world \<Rightarrow> call list" where
  \<comment> \<open>the calls made between an earlier world and a later one\<close>
  "new_calls w w' = drop (length (calls w)) (calls w')"

definition new_logs :: "world \<Rightarrow> world \<Rightarrow> log_entry list" where
  "new_logs w w' = drop (length (logs w)) (logs w')"

fun is_query :: "call \<Rightarrow> bool" where
  "is_query (QueryLlm ws thread input) = True"
| "is_query c = False"

fun is_classify :: "call \<Rightarrow> bool" where
  "is_classify (DetectIntentAndWorkspace q) = True"
| "is_classify c = False"

fun is_thread_write :: "call \<Rightarrow> bool" where
  \<comment> \<open>creating a thread, or writing a thread mapping\<close>
  "is_thread_write (CreateNewAnythingLLMThread ws) = True"
| "is_thread_write (StoreAnythingLLMThreadMapping ch rt ws thread) = True"
| "is_thread_write c = False"

definition is_progress_text :: "string \<Rightarrow> bool" where
  \<comment> \<open>the interim text of line 335, as opposed to a final message\<close>
  "is_progress_text t = startsWith t '':brain: Thinking in workspace''"

fun is_release :: "call \<Rightarrow> bool" where
  \<comment> \<open>a call that releases a placeholder: deleting it, or updating it to a final message\<close>
  "is_release (ChatDelete ch ts) = True"
| "is_release (ChatUpdate ch ts t) = (\<not> is_progress_text t)"
| "is_release c = False"

fun on_message :: "string \<Rightarrow> string \<Rightarrow> call \<Rightarrow> bool" where
  \<comment> \<open>an update or deletion addressed to the message \<open>ts\<close> of the channel\<close>
  "on_message channelId ts0 (ChatDelete ch ts) = (ch = channelId \<and> ts = ts0)"
| "on_message channelId ts0 (ChatUpdate ch ts t) = (ch = channelId \<and> ts = ts0)"
| "on_message channelId ts0 c = False"

fun is_feedback :: "call \<Rightarrow> bool" where
  \<comment> \<open>a posted message that carries the feedback buttons\<close>
  "is_feedback (ChatPostMessage a) =
     (case p_blocks a of Some (Feedback block_id elements) \<Rightarrow> True | _ \<Rightarrow> False)"
| "is_feedback c = False"

fun is_post_or_delay :: "call \<Rightarrow> bool" where
  "is_post_or_delay (ChatPostMessage a) = True"
| "is_post_or_delay (Delay n) = True"
| "is_post_or_delay c = False"

fun is_reply_post :: "call \<Rightarrow> bool" where
  \<comment> \<open>a posted message other than the feedback message, or the pause between two posts\<close>
  "is_reply_post (ChatPostMessage a) = (\<not> is_feedback (ChatPostMessage a))"
| "is_reply_post (Delay n) = True"
| "is_reply_post c = False"

fun is_placeholder_call :: "call \<Rightarrow> bool" where
  "is_placeholder_call (ChatUpdate ch ts t) = True"
| "is_placeholder_call (ChatDelete ch ts) = True"
| "is_placeholder_call c = False"

fun is_llm_call :: "call \<Rightarrow> bool" where
  \<comment> \<open>a query to the LLM or a call of the intent classifier\<close>
  "is_llm_call (QueryLlm ws thread input) = True"
| "is_llm_call (DetectIntentAndWorkspace q) = True"
| "is_llm_call c = False"

definition no_llm_call_between :: "world \<Rightarrow> world \<Rightarrow> bool" where
  \<comment> \<open>the later world extends the earlier one by calls none of which goes to the LLM\<close>
  "no_llm_call_between w w' =
     (take (length (calls w)) (calls w') = calls w \<and> \<not> list_ex is_llm_call (new_calls w w'))"

definition valid_pr_params :: "groups \<Rightarrow> bool" where
  \<comment> \<open>line 164\<close>
  "valid_pr_params g =
     (truthy (group g ''owner'') \<and> truthy (group g ''repo'')
      \<and> parseInt10 (group g ''pr_number'') \<noteq> NaN \<and> truthy (group g ''workspace_slug''))"

subsection \<open>What a pattern can capture\<close>

text \<open>
  Four syntactic checks on a pattern, from which facts about every match follow: whether
  a match must read a character, whether it can only read characters of one kind, whether
  each group captures a non-empty text (digits only, for the two number groups), and which
  groups take part in every match.
\<close>

fun consuming :: "rx \<Rightarrow> bool" where
  "consuming (Cls p) = True"
| "consuming (Seq a b) = (consuming a \<or> consuming b)"
| "consuming (Alt a b) = (consuming a \<and> consuming b)"
| "consuming (Grp n a) = consuming a"
| "consuming (Star a) = False"
| "consuming (Opt a) = False"
| "consuming Eps = False"
| "consuming Eos = False"

fun reads_only :: "(char \<Rightarrow> bool) \<Rightarrow> rx \<Rightarrow> bool" where
  "reads_only P (Cls p) = (\<forall>c. p c \<longrightarrow> P c)"
| "reads_only P (Seq a b) = (reads_only P a \<and> reads_only P b)"
| "reads_only P (Alt a b) = (reads_only P a \<and> reads_only P b)"
| "reads_only P (Grp n a) = reads_only P a"
| "reads_only P (Star a) = reads_only P a"
| "reads_only P (Opt a) = reads_only P a"
| "reads_only P Eps = True"
| "reads_only P Eos = True"

definition number_group :: "string \<Rightarrow> bool" where
  "number_group n = (n = ''pr_number'' \<or> n = ''issue_number'')"

definition capture_ok :: "string \<times> string \<Rightarrow> bool" where
  "capture_ok c = (snd c \<noteq> [] \<and> (number_group (fst c) \<longrightarrow> list_all is_digit (snd c)))"

fun captures_well :: "rx \<Rightarrow> bool" where
  "captures_well (Grp n a) =
     (captures_well a \<and> consuming a \<and> (number_group n \<longrightarrow> reads_only is_digit a))"
| "captures_well (Seq a b) = (captures_well a \<and> captures_well b)"
| "captures_well (Alt a b) = (captures_well a \<and> captures_well b)"
| "captures_well (Star a) = captures_well a"
| "captures_well (Opt a) = captures_well a"
| "captures_well (Cls p) = True"
| "captures_well Eps = True"
| "captures_well Eos = True"

fun sure_groups :: "rx \<Rightarrow> string set" where
  "sure_groups (Grp n a) = insert n (sure_groups a)"
| "sure_groups (Seq a b) = sure_groups a \<union> sure_groups b"
| "sure_groups (Alt a b) = sure_groups a \<inter> sure_groups b"
| "sure_groups (Star a) = {}"
| "sure_groups (Opt a) = {}"
| "sure_groups (Cls p) = {}"
| "sure_groups Eps = {}"
| "sure_groups Eos = {}"

text \<open>
  Three relations between the state before a match and a state after it: the input read
  in between consists of characters of one kind; captures that were well-formed stay so;
  no group name is lost.
\<close>

definition reads :: "(char \<Rightarrow> bool) \<Rightarrow> mstate \<Rightarrow> mstate \<Rightarrow> bool" where
  "reads P st st' = (\<exists>pre. fst st = pre @ fst st' \<and> list_all P pre)"

definition keeps_ok :: "mstate \<Rightarrow> mstate \<Rightarrow> bool" where
  "keeps_ok st st' = (list_all capture_ok (snd st) \<longrightarrow> list_all capture_ok (snd st'))"

definition keeps_names :: "mstate \<Rightarrow> mstate \<Rightarrow> bool" where
  "keeps_names st st' = (fst ` set (snd st) \<subseteq> fst ` set (snd st'))"

subsection \<open>The command router as the specification words it\<close>









subsection \<open>Concrete inputs\<close>

definition w0 :: world where
  "w0 = \<lparr>calls = [], logs = []\<rparr>"

definition cfg0 :: config where
  "cfg0 = \<lparr>botUserId = ''U0BOT'', githubWorkspaceSlug = ''github'',
           formatterWorkspaceSlug = ''formatter'', MIN_SUBSTANTIVE_RESPONSE_LENGTH = 5,
           GITHUB_OWNER = ''acme'', githubToken = Some ''ghp_token'', COMMAND_PREFIX = ''gh>'',
           WORKSPACE_OVERRIDE_REGEX = hash_override_regex,
           intentRoutingEnabled = True,
           intentConfidenceThreshold = 7 / 10\<rparr>"

definition no_intent :: intent_result where
  "no_intent = \<lparr>intent = None, confidence = 0, suggestedWorkspace = None\<rparr>"

definition env0 :: env where
  \<comment> \<open>every collaborator succeeds; no thread mapping is stored\<close>
  "env0 = \<lparr>octokit = True,
           chat_postMessage = (\<lambda>h. Inr (Some ''1700.0002'')),
           chat_update = (\<lambda>h. Inr ()),
           chat_delete = (\<lambda>h. Inr ()),
           handleDeleteLastMessageCommand = (\<lambda>h. Inr ()),
           handleReleaseInfoCommand = (\<lambda>h. Inr True),
           handlePrReviewCommand = (\<lambda>h. Inr True),
           handleIssueAnalysisCommand = (\<lambda>h. Inr True),
           handleGithubApiCommand = (\<lambda>h. Inr True),
           getAnythingLLMThreadMapping = (\<lambda>h. Inr None),
           storeAnythingLLMThreadMapping = (\<lambda>h. Inr ()),
           createNewAnythingLLMThread = (\<lambda>h. Inr (Some ''thread-new'')),
           determineWorkspace = (\<lambda>h. Inr (Some ''docs'')),
           detectIntentAndWorkspace = (\<lambda>h. Inr no_intent),
           queryLlm = (\<lambda>h. Inr (Some ''hello'')),
           extractTextAndCode =
             (\<lambda>s. [\<lparr>seg_type = ''text'', seg_content = Some s, seg_language = None\<rparr>]),
           markdownToRichTextBlock = (\<lambda>s. Some s)\<rparr>"

definition mapping_docs :: thread_mapping where
  "mapping_docs = \<lparr>anythingllm_workspace_slug = Some ''docs'',
                   anythingllm_thread_slug = Some ''thread-7''\<rparr>"

definition env_mapped :: env where
  \<comment> \<open>as \<open>env0\<close>, for a conversation whose mapping to the workspace docs is stored\<close>
  "env_mapped = env0\<lparr>getAnythingLLMThreadMapping := (\<lambda>h. Inr (Some mapping_docs))\<rparr>"

definition env_no_segments :: env where
  \<comment> \<open>as \<open>env0\<close>, with a segmenter that finds nothing and a formatter that gives no block\<close>
  "env_no_segments = env0\<lparr>extractTextAndCode := (\<lambda>s. []), markdownToRichTextBlock := (\<lambda>s. None)\<rparr>"

definition env_classifier_fails :: env where
  \<comment> \<open>as \<open>env0\<close>, with a classifier that raises\<close>
  "env_classifier_fails = env0\<lparr>detectIntentAndWorkspace := (\<lambda>h. Inl (Error ''classifier down''))\<rparr>"

definition env_posts_fail :: env where
  \<comment> \<open>as \<open>env0\<close>, but after the placeholder every post with a block raises one error and
      every post without a block another\<close>
  "env_posts_fail = env0\<lparr>chat_postMessage :=
     (\<lambda>h. case last h of
            ChatPostMessage a \<Rightarrow>
              if p_text a = processing_text then Inr (Some ''1700.0002'')
              else if p_blocks a \<noteq> None then Inl (Error ''first failure'')
              else Inl (Error ''second failure'')
          | _ \<Rightarrow> Inr None)\<rparr>"

definition env_services_down :: env where
  \<comment> \<open>as \<open>env0\<close>, with a mapping store and a classifier that raise\<close>
  "env_services_down = env0\<lparr>getAnythingLLMThreadMapping := (\<lambda>h. Inl (Error ''store down'')),
                             detectIntentAndWorkspace := (\<lambda>h. Inl (Error ''classifier down''))\<rparr>"




definition event0 :: "string \<Rightarrow> slack_event" where
  \<comment> \<open>a message with the given text, outside a thread\<close>
  "event0 t = \<lparr>ev_user = ''U1'', ev_text = Some t, ev_channel = ''C1'', ev_ts = ''1700.0001'',
               ev_thread_ts = None\<rparr>"

section \<open>Properties\<close>

subsection \<open>Basic facts about the world\<close>

lemma calls_console [simp]: "calls (console l s a w) = calls w"
  by (simp add: console_def)

lemma logs_console [simp]: "logs (console l s a w) = logs w @ [Log l s a]"
  by (simp add: console_def)

lemma perform_eq: "perform orc c w = (orc (calls w @ [c]), w\<lparr>calls := calls w @ [c]\<rparr>)"
  by (simp add: perform_def Let_def)

lemma new_calls_append [simp]: "calls w' = calls w @ cs \<Longrightarrow> new_calls w w' = cs"
  by (simp add: new_calls_def)

lemma new_logs_append [simp]: "logs w' = logs w @ ls \<Longrightarrow> new_logs w w' = ls"
  by (simp add: new_logs_def)

lemma updateOrDelete_calls:
  "ts \<noteq> [] \<Longrightarrow> ch \<noteq> [] \<Longrightarrow>
   calls (updateOrDeleteThinkingMessage env (Some ts) ch a w) =
     calls w @ [case a of Some t \<Rightarrow> ChatUpdate ch ts t | None \<Rightarrow> ChatDelete ch ts]"
  by (simp add: updateOrDeleteThinkingMessage_def perform_eq split: option.splits sum.splits)

lemma startsWith_nonempty: "startsWith s p \<Longrightarrow> p \<noteq> [] \<Longrightarrow> s \<noteq> []"
  by (auto simp: startsWith_def)

subsection \<open>Messages that are empty once the mention is gone\<close>

text \<open>
  A text that is absent or blank, and a text that is the bot mention between white space,
  are empty once cleaned.
\<close>

lemma trim_of_spaces: "\<forall>c\<in>set s. is_space c \<Longrightarrow> trim s = []"
  by (auto simp: trim_def dest: set_dropWhileD)

lemma dropWhile_spaces_append:
  "\<forall>c\<in>set a. is_space c \<Longrightarrow> dropWhile is_space (a @ s) = dropWhile is_space s"
  by (induction a) auto

lemma trim_surrounded:
  assumes a: "\<forall>c\<in>set a. is_space c" and b: "\<forall>c\<in>set b. is_space c"
    and m: "m \<noteq> []" "\<not> is_space (hd m)" "\<not> is_space (last m)"
  shows "trim (a @ m @ b) = m"
proof -
  have 1: "dropWhile is_space (a @ m @ b) = m @ b"
    using a m by (cases m) (simp_all add: dropWhile_spaces_append)
  have "\<forall>c\<in>set (rev b). is_space c" using b by simp
  then have 2: "dropWhile is_space (rev b @ rev m) = dropWhile is_space (rev m)"
    by (rule dropWhile_spaces_append)
  have 3: "dropWhile is_space (rev m) = rev m"
    using m by (cases m rule: rev_cases) simp_all
  show ?thesis by (simp add: trim_def 1 2 3)
qed

lemma remove_first_self: "m \<noteq> [] \<Longrightarrow> remove_first m m = []"
  by (cases m) (simp_all add: startsWith_def)

lemma mention_only_cleans_to_nothing:
  assumes t: "ev_text event = Some (a @ ''<@'' @ botUserId cfg @ ''>'' @ b)"
    and a: "\<forall>c\<in>set a. is_space c" and b: "\<forall>c\<in>set b. is_space c"
  shows "cleanedQuery_of cfg event = []"
proof -
  let ?m = "''<@'' @ botUserId cfg @ ''>''"
  have "trim (a @ ?m @ b) = ?m"
    using a b by (intro trim_surrounded) (simp_all add: is_space_def)
  then have "trim (a @ ''<@'' @ botUserId cfg @ ''>'' @ b) = ?m" by simp
  moreover have "remove_first ?m ?m = []" by (rule remove_first_self) simp
  ultimately show ?thesis
    using t by (simp add: cleanedQuery_of_def Let_def trim_def)
qed

lemma blank_message_cleans_to_nothing:
  assumes "ev_text event = None \<or> (\<exists>t. ev_text event = Some t \<and> (\<forall>c\<in>set t. is_space c))"
  shows "cleanedQuery_of cfg event = []"
  using assms by (auto simp: cleanedQuery_of_def Let_def trim_of_spaces)

text \<open>
  Claim C7. When the text of the event, with the first bot mention removed and trimmed,
  is empty, the handler returns at once and leaves the world as it found it: no
  placeholder is posted, no command runs, and neither the classifier nor the LLM is
  called.
\<close>

theorem empty_query_is_ignored:
  "cleanedQuery_of cfg event = [] \<Longrightarrow> handleSlackMessageEventInternal env cfg event w = (Inr (), w)"
  by (simp add: handleSlackMessageEventInternal_def)

theorem empty_query_is_ignored_witness:
  "cleanedQuery_of cfg0 (event0 ''  <@U0BOT>  '') = []
   \<and> handleSlackMessageEventInternal env0 cfg0 (event0 ''  <@U0BOT>  '') w0 = (Inr (), w0)"
proof -
  have h: "cleanedQuery_of cfg0 (event0 ''  <@U0BOT>  '') = []"
    by code_simp
  show ?thesis using h empty_query_is_ignored [OF h, of env0 w0] by simp
qed

subsection \<open>The delete command\<close>

text \<open>
  Claim C10. When the lower-cased cleaned text starts with \<^verbatim>\<open>#delete_last_message\<close>,
  whatever follows it and whatever the configured command prefix is, the handler makes
  exactly one call, to the delete handler, writes nothing to the log, and ends as that
  call ends: no placeholder is posted, and neither the GitHub configuration nor a command
  grammar is looked at.
\<close>

theorem delete_last_message_dispatch:
  "startsWith (toLowerCase (cleanedQuery_of cfg event)) ''#delete_last_message'' \<Longrightarrow>
   handleSlackMessageEventInternal env cfg event w =
     (handleDeleteLastMessageCommand env
        (calls w @ [HandleDeleteLastMessageCommand (ev_channel event) (replyTarget_of event)
                      (botUserId cfg)]),
      w\<lparr>calls := calls w @ [HandleDeleteLastMessageCommand (ev_channel event) (replyTarget_of event)
                              (botUserId cfg)]\<rparr>)"
proof -
  assume a: "startsWith (toLowerCase (cleanedQuery_of cfg event)) ''#delete_last_message''"
  then have "toLowerCase (cleanedQuery_of cfg event) \<noteq> []"
    by (rule startsWith_nonempty) simp
  then have "cleanedQuery_of cfg event \<noteq> []"
    by (auto simp: toLowerCase_def)
  with a show ?thesis
    by (simp add: handleSlackMessageEventInternal_def perform_eq Let_def)
qed

theorem delete_last_message_dispatch_witness:
  "startsWith (toLowerCase (cleanedQuery_of (cfg0\<lparr>COMMAND_PREFIX := ''#''\<rparr>)
                  (event0 ''<@U0BOT> #Delete_Last_Message gh> release x''))) ''#delete_last_message''
   \<and> handleSlackMessageEventInternal env0 (cfg0\<lparr>COMMAND_PREFIX := ''#''\<rparr>)
         (event0 ''<@U0BOT> #Delete_Last_Message gh> release x'') w0
       = (Inr (), \<lparr>calls = [HandleDeleteLastMessageCommand ''C1'' ''1700.0001'' ''U0BOT''], logs = []\<rparr>)"
proof -
  have h: "startsWith (toLowerCase (cleanedQuery_of (cfg0\<lparr>COMMAND_PREFIX := ''#''\<rparr>)
                  (event0 ''<@U0BOT> #Delete_Last_Message gh> release x''))) ''#delete_last_message''"
    by code_simp
  show ?thesis
    using h delete_last_message_dispatch [OF h, of env0 w0]
    by (simp add: env0_def w0_def event0_def cfg0_def replyTarget_of_def)
qed

subsection \<open>From the handler to its blocks\<close>

text \<open>
  A message that is not empty, not the delete command and not a prefix command, and whose
  placeholder is posted, is handled by the fallback; the timestamp of the placeholder is
  then a non-empty text.
\<close>

lemma handler_enters_fallback:
  assumes q: "cleanedQuery_of cfg event \<noteq> []"
    and d: "\<not> startsWith (toLowerCase (cleanedQuery_of cfg event)) ''#delete_last_message''"
    and c: "\<not> isPotentialGhCommand cfg (cleanedQuery_of cfg event)"
    and p: "post_thinking env (ev_channel event) (replyTarget_of event) w = (Some ts, w1)"
  shows "ts \<noteq> []
       \<and> handleSlackMessageEventInternal env cfg event w
         = (Inr (), fallback env cfg event (cleanedQuery_of cfg event) (replyTarget_of event) ts w1)"
proof -
  from p have "ts \<noteq> []"
    by (auto simp: post_thinking_def perform_eq truthy_def split: sum.splits if_splits)
  with q d c p show ?thesis
    by (simp add: handleSlackMessageEventInternal_def Let_def github_commands_def)
qed

text \<open>
  Inside the fallback: an intent that meets the routing condition ends the \<^verbatim>\<open>try\<close>
  block with the ReferenceError of line 266; any other classification goes on to the
  query path; and the query path, once the workspace and the thread are resolved and the
  LLM has answered, ends with the posting of the reply.
\<close>

lemma fallback_enters_query_path:
  assumes d: "detectIntentAndWorkspace env (calls w @ [DetectIntentAndWorkspace q]) = Inr r"
    and n: "\<not> (intentRoutingEnabled cfg \<and> truthy (intent r)
               \<and> intentConfidenceThreshold cfg \<le> confidence r)"
  shows "intent_and_llm_try env cfg event q rt ts w
         = llm_query_path env cfg event q rt ts (suggestedWorkspace r)
             (w\<lparr>calls := calls w @ [DetectIntentAndWorkspace q]\<rparr>)"
  using d n by (auto simp: intent_and_llm_try_def intent_routing_def perform_eq)

lemma routed_intent_is_an_error:
  assumes d: "detectIntentAndWorkspace env (calls w @ [DetectIntentAndWorkspace q]) = Inr r"
    and n: "intentRoutingEnabled cfg \<and> truthy (intent r)
              \<and> intentConfidenceThreshold cfg \<le> confidence r"
  shows "intent_and_llm_try env cfg event q rt ts w
         = (Inl (Error ''intentResult is not defined''), Some ts,
            w\<lparr>calls := calls w @ [DetectIntentAndWorkspace q]\<rparr>)"
  using d n by (simp add: intent_and_llm_try_def intent_routing_def intentContext_def perform_eq)

lemma query_path_enters_post_reply:
  assumes dw: "determineWorkspace env
                 (calls w @ [DetermineWorkspace sug (ev_user event) (ev_channel event)]) = Inr W"
    and tw: "truthy W"
    and rt: "resolve_thread env event rt W
               (w\<lparr>calls := calls w @ [DetermineWorkspace sug (ev_user event) (ev_channel event)]\<rparr>)
             = (Inr thr, w2)"
    and w3: "w3 = updateOrDeleteThinkingMessage env (Some ts) (ev_channel event)
                    (Some (thinking_in_text W)) w2"
    and q: "queryLlm env (calls w3 @ [QueryLlm W thr (llmInputText_of cfg q)]) = Inr rawReply"
  shows "snd (snd (llm_query_path env cfg event q rt ts sug w))
         = snd (post_reply env cfg event rt W (case rawReply of None \<Rightarrow> [] | Some r \<Rightarrow> trim r)
                  (updateOrDeleteThinkingMessage env (Some ts) (ev_channel event) None
                     (w3\<lparr>calls := calls w3 @ [QueryLlm W thr (llmInputText_of cfg q)]\<rparr>)))"
  using dw tw rt w3 q
  by (simp add: llm_query_path_def perform_eq Let_def split: prod.splits)

subsection \<open>Which calls a block makes\<close>

lemma updateOrDelete_logs_suffix:
  "\<exists>ls. logs (updateOrDeleteThinkingMessage env t ch a w) = logs w @ ls"
  by (auto simp: updateOrDeleteThinkingMessage_def perform_eq split: option.splits sum.splits)

lemma thinking_in_text_progress [simp]: "is_progress_text (thinking_in_text ws)"
  by (simp add: is_progress_text_def thinking_in_text_def startsWith_def)

lemma oops_text_final [simp]: "\<not> is_progress_text (oops_text e)"
  by (simp add: is_progress_text_def oops_text_def startsWith_def emoji_warning_def)

lemma raw_reply_message_not_feedback [simp]:
  "\<not> is_feedback (ChatPostMessage (raw_reply_message env ch rt tr))"
  by (simp add: raw_reply_message_def text_message_def split: option.splits)

lemma text_message_not_feedback [simp]: "\<not> is_feedback (ChatPostMessage (text_message ch rt t))"
  by (simp add: text_message_def)

lemma feedback_message_is_feedback [simp]:
  "is_feedback (ChatPostMessage (feedback_message event rt ws))"
  by (simp add: feedback_message_def)

lemma post_one_segment_adds:
  "post_one_segment env ch rt i st ft l w = (l', w') \<Longrightarrow>
   \<exists>cs. calls w' = calls w @ cs \<and> list_all is_reply_post cs"
  by (auto simp: post_one_segment_def perform_eq Let_def text_message_def
           split: sum.splits option.splits if_splits)

lemma post_segments_adds:
  "post_segments env ch rt i segs l w = (l', w') \<Longrightarrow>
   \<exists>cs. calls w' = calls w @ cs \<and> list_all is_reply_post cs"
proof (induction segs arbitrary: i l w)
  case Nil
  then show ?case by simp
next
  case (Cons sg rest)
  show ?case
  proof (cases "fst (segment_texts sg) = []")
    case True
    with Cons show ?thesis by simp
  next
    case False
    obtain l1 w1 where p: "post_one_segment env ch rt i (fst (segment_texts sg))
                (snd (segment_texts sg)) l w = (l1, w1)"
      by (cases "post_one_segment env ch rt i (fst (segment_texts sg))
                (snd (segment_texts sg)) l w") auto
    from post_one_segment_adds [OF p] obtain cs1 where
      c1: "calls w1 = calls w @ cs1" "list_all is_reply_post cs1" by blast
    let ?w2 = "if rest \<noteq> [] then w1\<lparr>calls := calls w1 @ [Delay 500]\<rparr> else w1"
    from Cons.prems False p have r: "post_segments env ch rt (Suc i) rest l1 ?w2 = (l', w')"
      by simp
    from Cons.IH [OF r] obtain cs2 where
      c2: "calls w' = calls ?w2 @ cs2" "list_all is_reply_post cs2" by blast
    show ?thesis
    proof (cases "rest = []")
      case True
      with c1 c2 show ?thesis by auto
    next
      case False
      with c1 c2 have "calls w' = calls w @ (cs1 @ [Delay 500] @ cs2)"
        "list_all is_reply_post (cs1 @ [Delay 500] @ cs2)" by auto
      then show ?thesis by blast
    qed
  qed
qed

lemma reply_posting_adds:
  "reply_posting env event rt tr w = (r, w') \<Longrightarrow>
   \<exists>cs. calls w' = calls w @ cs \<and> list_all is_reply_post cs"
  by (auto simp: reply_posting_def post_raw_reply_def perform_eq Let_def
             raw_reply_message_def text_message_def
           split: if_splits prod.splits option.splits dest: post_segments_adds)

lemma reply_post_is_post_or_delay: "list_all is_reply_post cs \<Longrightarrow> list_all is_post_or_delay cs"
  by (induction cs) (auto elim: is_reply_post.elims)

lemma reply_post_no_feedback: "list_all is_reply_post cs \<Longrightarrow> filter is_feedback cs = []"
  by (induction cs) (auto elim: is_reply_post.elims)

lemma post_feedback_calls:
  "calls (post_feedback env event rt ws l b w) =
     calls w @ (if truthy l \<and> b then [ChatPostMessage (feedback_message event rt ws)] else [])"
  by (auto simp: post_feedback_def perform_eq split: sum.splits)

lemma post_reply_adds:
  assumes "post_reply env cfg event rt ws tr w = (r, w')"
  shows "\<exists>cs. calls w' = calls w @ cs \<and> list_all is_post_or_delay cs"
proof (cases "tr = []")
  case True
  with assms show ?thesis
    by (auto simp: post_reply_def perform_eq split: sum.splits)
next
  case False
  obtain r1 w1 where rp: "reply_posting env event rt tr w = (r1, w1)"
    by (cases "reply_posting env event rt tr w") auto
  from reply_posting_adds [OF rp] obtain cs1 where
    c1: "calls w1 = calls w @ cs1" "list_all is_reply_post cs1" by blast
  note p1 = reply_post_is_post_or_delay [OF c1(2)]
  show ?thesis
  proof (cases r1)
    case (Inl e)
    with assms False rp c1 p1 show ?thesis by (auto simp: post_reply_def Let_def)
  next
    case (Inr l)
    from assms False rp Inr have "w' = post_feedback env event rt ws l
        (int (length tr) \<ge> MIN_SUBSTANTIVE_RESPONSE_LENGTH cfg) w1"
      by (auto simp: post_reply_def Let_def)
    with c1 p1 show ?thesis by (auto simp: post_feedback_calls)
  qed
qed

lemma post_or_delay_no_release: "list_all is_post_or_delay cs \<Longrightarrow> filter is_release cs = []"
  by (induction cs) (auto elim: is_post_or_delay.elims)

lemma updateOrDelete_adds:
  "\<exists>cs. calls (updateOrDeleteThinkingMessage env t ch a w) = calls w @ cs
        \<and> list_all is_placeholder_call cs"
  by (auto simp: updateOrDeleteThinkingMessage_def perform_eq split: option.splits sum.splits)

lemma placeholder_call_other:
  "list_all is_placeholder_call cs \<Longrightarrow>
   filter is_query cs = [] \<and> filter is_thread_write cs = [] \<and> filter is_feedback cs = []"
  by (induction cs) (auto elim: is_placeholder_call.elims)

lemma post_or_delay_other:
  "list_all is_post_or_delay cs \<Longrightarrow> filter is_query cs = [] \<and> filter is_thread_write cs = []"
  by (induction cs) (auto elim: is_post_or_delay.elims)

subsection \<open>Release of the placeholder\<close>

lemma resolve_thread_no_release:
  "resolve_thread env event rt ws w = (r, w') \<Longrightarrow>
   \<exists>cs. calls w' = calls w @ cs \<and> filter is_release cs = []"
  by (auto simp: resolve_thread_def perform_eq split: sum.splits option.splits if_splits)

lemma llm_query_path_release:
  assumes run: "llm_query_path env cfg event q rt ts sug w = (r, t, w')"
    and ts: "ts \<noteq> []" and ch: "ev_channel event \<noteq> []"
  shows "\<exists>cs. calls w' = calls w @ cs \<and>
           ((t = Some ts \<and> (\<exists>e. r = Inl e) \<and> filter is_release cs = [])
            \<or> (t = None \<and> filter is_release cs = [ChatDelete (ev_channel event) ts]))"
proof -
  let ?c0 = "DetermineWorkspace sug (ev_user event) (ev_channel event)"
  let ?w1 = "w\<lparr>calls := calls w @ [?c0]\<rparr>"
  show ?thesis
  proof (cases "determineWorkspace env (calls w @ [?c0])")
    case (Inl e)
    with run show ?thesis by (auto simp: llm_query_path_def perform_eq)
  next
    case (Inr fws)
    show ?thesis
    proof (cases "truthy fws")
      case False
      with run Inr show ?thesis by (auto simp: llm_query_path_def perform_eq)
    next
      case True
      obtain r2 w2 where rt2: "resolve_thread env event rt fws ?w1 = (r2, w2)"
        by (cases "resolve_thread env event rt fws ?w1") auto
      from resolve_thread_no_release [OF rt2] obtain cs2 where
        c2: "calls w2 = calls w @ [?c0] @ cs2" "filter is_release cs2 = []" by auto
      show ?thesis
      proof (cases r2)
        case (Inl e)
        with run Inr True rt2 c2 show ?thesis by (auto simp: llm_query_path_def perform_eq)
      next
        case (Inr thr)
        let ?w3 = "updateOrDeleteThinkingMessage env (Some ts) (ev_channel event)
                     (Some (thinking_in_text fws)) w2"
        let ?cq = "QueryLlm fws thr (llmInputText_of cfg q)"
        have c3: "calls ?w3 = calls w2 @ [ChatUpdate (ev_channel event) ts (thinking_in_text fws)]"
          using ts ch by (simp add: updateOrDelete_calls)
        show ?thesis
        proof (cases "queryLlm env (calls ?w3 @ [?cq])")
          case (Inl e)
          with run \<open>determineWorkspace env (calls w @ [?c0]) = Inr fws\<close> True rt2 Inr c2 c3
          show ?thesis by (auto simp: llm_query_path_def perform_eq Let_def)
        next
          case q: (Inr rawReply)
          let ?w4 = "?w3\<lparr>calls := calls ?w3 @ [?cq]\<rparr>"
          let ?w5 = "updateOrDeleteThinkingMessage env (Some ts) (ev_channel event) None ?w4"
          let ?tr = "case rawReply of None \<Rightarrow> [] | Some r \<Rightarrow> trim r"
          have c5: "calls ?w5 = calls ?w4 @ [ChatDelete (ev_channel event) ts]"
            using ts ch by (simp add: updateOrDelete_calls)
          obtain r6 w6 where pr: "post_reply env cfg event rt fws ?tr ?w5 = (r6, w6)"
            by (cases "post_reply env cfg event rt fws ?tr ?w5") auto
          from post_reply_adds [OF pr] obtain cs6 where
            c6: "calls w6 = calls ?w5 @ cs6" "list_all is_post_or_delay cs6" by blast
          from run \<open>determineWorkspace env (calls w @ [?c0]) = Inr fws\<close> True rt2 Inr q pr
          have res: "t = None" "w' = w6"
            by (auto simp: llm_query_path_def perform_eq Let_def)
          have "calls w6 = calls w @ ([?c0] @ cs2 @ [ChatUpdate (ev_channel event) ts (thinking_in_text fws),
                   ?cq, ChatDelete (ev_channel event) ts] @ cs6)"
            using c2 c3 c5 c6 by simp
          moreover have "filter is_release ([?c0] @ cs2 @ [ChatUpdate (ev_channel event) ts (thinking_in_text fws),
                   ?cq, ChatDelete (ev_channel event) ts] @ cs6) = [ChatDelete (ev_channel event) ts]"
            using c2(2) post_or_delay_no_release [OF c6(2)] by simp
          ultimately show ?thesis using res by blast
        qed
      qed
    qed
  qed
qed

lemma intent_routing_result:
  "intent_routing env cfg event ts r w = (x, w') \<Longrightarrow> w' = w \<and> x \<noteq> Inr True"
  by (auto simp: intent_routing_def intentContext_def split: if_splits)

lemma intent_and_llm_try_release:
  assumes run: "intent_and_llm_try env cfg event q rt ts w = (r, t, w')"
    and ts: "ts \<noteq> []" and ch: "ev_channel event \<noteq> []"
  shows "\<exists>cs. calls w' = calls w @ cs \<and>
           ((t = Some ts \<and> (\<exists>e. r = Inl e) \<and> filter is_release cs = [])
            \<or> (t = None \<and> filter is_release cs = [ChatDelete (ev_channel event) ts]))"
proof -
  let ?c0 = "DetectIntentAndWorkspace q"
  let ?w1 = "w\<lparr>calls := calls w @ [?c0]\<rparr>"
  show ?thesis
  proof (cases "detectIntentAndWorkspace env (calls w @ [?c0])")
    case (Inl e)
    with run show ?thesis by (auto simp: intent_and_llm_try_def perform_eq)
  next
    case (Inr ir)
    obtain x w2 where ro: "intent_routing env cfg event ts ir ?w1 = (x, w2)"
      by (cases "intent_routing env cfg event ts ir ?w1") auto
    from intent_routing_result [OF ro] have w2: "w2 = ?w1" and x: "x \<noteq> Inr True" by auto
    show ?thesis
    proof (cases x)
      case (Inl e)
      with run Inr ro w2 show ?thesis by (auto simp: intent_and_llm_try_def perform_eq)
    next
      case xr: (Inr b)
      with x have b: "b = False" by auto
      from run Inr ro w2 xr b
      have "llm_query_path env cfg event q rt ts (suggestedWorkspace ir) ?w1 = (r, t, w')"
        by (auto simp: intent_and_llm_try_def perform_eq)
      from llm_query_path_release [OF this ts ch] obtain cs where
        "calls w' = calls w @ ([?c0] @ cs)"
        "(t = Some ts \<and> (\<exists>e. r = Inl e) \<and> filter is_release ([?c0] @ cs) = [])
            \<or> (t = None \<and> filter is_release ([?c0] @ cs) = [ChatDelete (ev_channel event) ts])"
        by auto
      then show ?thesis by blast
    qed
  qed
qed

text \<open>
  Were the \<^verbatim>\<open>switch\<close> of lines 269 to 290 reached with one of its two stubbed intents,
  the placeholder would be updated to the stub's notice and then deleted by the
  \<^verbatim>\<open>finally\<close> block, since \<^verbatim>\<open>thinkingMessageTs\<close> is not cleared on that way.
\<close>

lemma stub_reply_would_be_deleted:
  assumes i: "i = ''github_issue_lookup'' \<or> i = ''ask_faq''"
    and ts: "ts \<noteq> []" and ch: "ev_channel event \<noteq> []"
  shows "fst (intent_switch env event ts i w)
       \<and> new_calls w (finally_block env event (Some ts) (snd (intent_switch env event ts i w)))
         = [ChatUpdate (ev_channel event) ts (intent_stub_text i), ChatDelete (ev_channel event) ts]"
proof -
  have "fst (intent_switch env event ts i w)
       \<and> calls (finally_block env event (Some ts) (snd (intent_switch env event ts i w)))
         = calls w @ [ChatUpdate (ev_channel event) ts (intent_stub_text i),
                      ChatDelete (ev_channel event) ts]"
    using i ts ch
    by (auto simp: intent_switch_def finally_block_def truthy_def updateOrDelete_calls)
  then show ?thesis by simp
qed

text \<open>
  The routing of lines 259 to 299 never reports an intent as handled: when its condition
  holds, building \<^verbatim>\<open>intentContext\<close> throws before the \<^verbatim>\<open>switch\<close> is reached
  (\<open>intent_routing_result\<close>), so that way is never taken. The exits of the fallback are
  therefore the error exits and the exits after the query.

  Claim C4. On every run of the fallback branch, with the placeholder posted (its
  timestamp is non-empty) in a channel with a non-empty id, exactly one call releases the
  placeholder: either it is deleted, or it is updated to the error message; never both.
  The interim update of line 335 is not a final message.
\<close>

theorem placeholder_released_once:
  assumes ts: "thinkingMessageTs \<noteq> []" and ch: "ev_channel event \<noteq> []"
  shows "filter is_release
           (new_calls w (fallback env cfg event cleanedQuery replyTarget thinkingMessageTs w))
         = [ChatDelete (ev_channel event) thinkingMessageTs]
       \<or> (\<exists>e. filter is_release
                 (new_calls w (fallback env cfg event cleanedQuery replyTarget thinkingMessageTs w))
               = [ChatUpdate (ev_channel event) thinkingMessageTs (oops_text e)])"
proof -
  obtain r t w1 where run:
    "intent_and_llm_try env cfg event cleanedQuery replyTarget thinkingMessageTs w = (r, t, w1)"
    by (cases "intent_and_llm_try env cfg event cleanedQuery replyTarget thinkingMessageTs w") auto
  from intent_and_llm_try_release [OF run ts ch] obtain cs where
    cs: "calls w1 = calls w @ cs"
    and alt: "(t = Some thinkingMessageTs \<and> (\<exists>e. r = Inl e) \<and> filter is_release cs = [])
            \<or> (t = None \<and> filter is_release cs = [ChatDelete (ev_channel event) thinkingMessageTs])"
    by blast
  from alt show ?thesis
  proof
    assume a: "t = Some thinkingMessageTs \<and> (\<exists>e. r = Inl e) \<and> filter is_release cs = []"
    then obtain e where e: "r = Inl e" by blast
    have "calls (fallback env cfg event cleanedQuery replyTarget thinkingMessageTs w)
            = calls w @ (cs @ [ChatUpdate (ev_channel event) thinkingMessageTs (oops_text e)])"
      using run a e cs ts ch
      by (simp add: fallback_def catch_block_def finally_block_def truthy_def Let_def
            updateOrDelete_calls)
    then have "new_calls w (fallback env cfg event cleanedQuery replyTarget thinkingMessageTs w)
            = cs @ [ChatUpdate (ev_channel event) thinkingMessageTs (oops_text e)]"
      by (rule new_calls_append)
    with a show ?thesis by auto
  next
    assume a: "t = None \<and> filter is_release cs = [ChatDelete (ev_channel event) thinkingMessageTs]"
    have "\<exists>cs2. calls (fallback env cfg event cleanedQuery replyTarget thinkingMessageTs w)
            = calls w @ (cs @ cs2) \<and> list_all is_post_or_delay cs2"
      using run a cs
      by (cases r) (auto simp: fallback_def catch_block_def finally_block_def truthy_def Let_def
            perform_eq)
    then obtain cs2 where c2:
      "calls (fallback env cfg event cleanedQuery replyTarget thinkingMessageTs w) = calls w @ (cs @ cs2)"
      "list_all is_post_or_delay cs2" by blast
    from c2(1) have "new_calls w (fallback env cfg event cleanedQuery replyTarget thinkingMessageTs w)
            = cs @ cs2" by (rule new_calls_append)
    with a post_or_delay_no_release [OF c2(2)] show ?thesis by simp
  qed
qed

theorem placeholder_released_once_witness:
  "''1700.0002'' \<noteq> [] \<and> ev_channel (event0 ''hi'') \<noteq> []
   \<and> filter is_release
         (new_calls w0 (fallback env0 cfg0 (event0 ''hi'') ''hi'' ''1700.0001'' ''1700.0002'' w0))
       = [ChatDelete ''C1'' ''1700.0002'']"
proof -
  have h1: "''1700.0002'' \<noteq> []" by simp
  have h2: "ev_channel (event0 ''hi'') \<noteq> []" by (simp add: event0_def)
  have v: "filter is_release
         (new_calls w0 (fallback env0 cfg0 (event0 ''hi'') ''hi'' ''1700.0001'' ''1700.0002'' w0))
       = [ChatDelete ''C1'' ''1700.0002'']"
    by code_simp
  from placeholder_released_once [OF h1 h2, of w0 env0 cfg0 "''hi''" "''1700.0001''"] v h1 h2
  show ?thesis by simp
qed

subsection \<open>Reuse of the stored thread\<close>

text \<open>
  Claim C3. On the query path of the fallback, when the workspace resolved for the
  message is \<open>W\<close> and the mapping read for the conversation is a mapping to \<open>W\<close>, the one
  query sent to the LLM carries \<open>W\<close> and the thread slug of the mapping, and the path
  neither creates a thread nor writes a mapping.
\<close>

theorem same_workspace_reuses_thread:
  assumes dw: "determineWorkspace env
                 (calls w @ [DetermineWorkspace suggested (ev_user event) (ev_channel event)]) = Inr W"
    and tw: "truthy W"
    and gm: "getAnythingLLMThreadMapping env
               (calls w @ [DetermineWorkspace suggested (ev_user event) (ev_channel event),
                           GetAnythingLLMThreadMapping (ev_channel event) replyTarget]) = Inr (Some m)"
    and same: "anythingllm_workspace_slug m = W"
  shows "filter is_query
           (new_calls w (snd (snd (llm_query_path env cfg event cleanedQuery replyTarget
                                     thinkingMessageTs suggested w))))
         = [QueryLlm W (anythingllm_thread_slug m) (llmInputText_of cfg cleanedQuery)]
       \<and> filter is_thread_write
           (new_calls w (snd (snd (llm_query_path env cfg event cleanedQuery replyTarget
                                     thinkingMessageTs suggested w)))) = []"
proof -
  let ?c0 = "DetermineWorkspace suggested (ev_user event) (ev_channel event)"
  let ?c1 = "GetAnythingLLMThreadMapping (ev_channel event) replyTarget"
  let ?w2 = "w\<lparr>calls := calls w @ [?c0, ?c1]\<rparr>"
  let ?w3 = "updateOrDeleteThinkingMessage env (Some thinkingMessageTs) (ev_channel event)
               (Some (thinking_in_text W)) ?w2"
  let ?cq = "QueryLlm W (anythingllm_thread_slug m) (llmInputText_of cfg cleanedQuery)"
  let ?w4 = "?w3\<lparr>calls := calls ?w3 @ [?cq]\<rparr>"
  let ?w5 = "updateOrDeleteThinkingMessage env (Some thinkingMessageTs) (ev_channel event) None ?w4"
  let ?res = "llm_query_path env cfg event cleanedQuery replyTarget thinkingMessageTs suggested w"
  have rt: "resolve_thread env event replyTarget W (w\<lparr>calls := calls w @ [?c0]\<rparr>)
              = (Inr (anythingllm_thread_slug m), ?w2)"
    using gm same by (simp add: resolve_thread_def perform_eq mapping_for_def)
  from updateOrDelete_adds [of env "Some thinkingMessageTs" "ev_channel event"
      "Some (thinking_in_text W)" ?w2]
  obtain cs3 where c3: "calls ?w3 = calls w @ [?c0, ?c1] @ cs3" "list_all is_placeholder_call cs3"
    by auto
  show ?thesis
  proof (cases "queryLlm env (calls ?w3 @ [?cq])")
    case (Inl e)
    then have "calls (snd (snd ?res)) = calls ?w4"
      using dw tw rt by (simp add: llm_query_path_def perform_eq Let_def)
    then have "calls (snd (snd ?res)) = calls w @ ([?c0, ?c1] @ cs3 @ [?cq])"
      using c3 by simp
    then have "new_calls w (snd (snd ?res)) = [?c0, ?c1] @ cs3 @ [?cq]"
      by (rule new_calls_append)
    with placeholder_call_other [OF c3(2)] show ?thesis by simp
  next
    case (Inr rawReply)
    let ?tr = "case rawReply of None \<Rightarrow> [] | Some r \<Rightarrow> trim r"
    from updateOrDelete_adds [of env "Some thinkingMessageTs" "ev_channel event" None ?w4]
    obtain cs5 where c5: "calls ?w5 = calls ?w4 @ cs5" "list_all is_placeholder_call cs5"
      by auto
    obtain r6 w6 where pr: "post_reply env cfg event replyTarget W ?tr ?w5 = (r6, w6)"
      by (cases "post_reply env cfg event replyTarget W ?tr ?w5") auto
    from post_reply_adds [OF pr] obtain cs6 where
      c6: "calls w6 = calls ?w5 @ cs6" "list_all is_post_or_delay cs6" by blast
    have "snd (snd ?res) = w6"
      using dw tw rt Inr pr by (simp add: llm_query_path_def perform_eq Let_def)
    then have "calls (snd (snd ?res)) = calls w @ ([?c0, ?c1] @ cs3 @ [?cq] @ cs5 @ cs6)"
      using c3 c5 c6 by simp
    then have "new_calls w (snd (snd ?res)) = [?c0, ?c1] @ cs3 @ [?cq] @ cs5 @ cs6"
      by (rule new_calls_append)
    with placeholder_call_other [OF c3(2)] placeholder_call_other [OF c5(2)]
      post_or_delay_other [OF c6(2)]
    show ?thesis by simp
  qed
qed

theorem same_workspace_reuses_thread_witness:
  "determineWorkspace env_mapped
     (calls w0 @ [DetermineWorkspace None (ev_user (event0 ''hi'')) (ev_channel (event0 ''hi''))])
     = Inr (Some ''docs'')
   \<and> truthy (Some ''docs'')
   \<and> getAnythingLLMThreadMapping env_mapped
       (calls w0 @ [DetermineWorkspace None (ev_user (event0 ''hi'')) (ev_channel (event0 ''hi'')),
                    GetAnythingLLMThreadMapping (ev_channel (event0 ''hi'')) ''1700.0001''])
       = Inr (Some mapping_docs)
   \<and> anythingllm_workspace_slug mapping_docs = Some ''docs''
   \<and> filter is_query
         (new_calls w0 (snd (snd (llm_query_path env_mapped cfg0 (event0 ''hi'') ''hi'' ''1700.0001''
                                   ''1700.0002'' None w0))))
       = [QueryLlm (Some ''docs'') (Some ''thread-7'') (llmInputText_of cfg0 ''hi'')]
   \<and> filter is_thread_write
         (new_calls w0 (snd (snd (llm_query_path env_mapped cfg0 (event0 ''hi'') ''hi'' ''1700.0001''
                                   ''1700.0002'' None w0)))) = []"
proof -
  have h1: "determineWorkspace env_mapped
     (calls w0 @ [DetermineWorkspace None (ev_user (event0 ''hi'')) (ev_channel (event0 ''hi''))])
     = Inr (Some ''docs'')"
    by (simp add: env_mapped_def env0_def)
  have h2: "truthy (Some ''docs'')" by (simp add: truthy_def)
  have h3: "getAnythingLLMThreadMapping env_mapped
       (calls w0 @ [DetermineWorkspace None (ev_user (event0 ''hi'')) (ev_channel (event0 ''hi'')),
                    GetAnythingLLMThreadMapping (ev_channel (event0 ''hi'')) ''1700.0001''])
       = Inr (Some mapping_docs)"
    by (simp add: env_mapped_def env0_def)
  have h4: "anythingllm_workspace_slug mapping_docs = Some ''docs''"
    by (simp add: mapping_docs_def)
  from same_workspace_reuses_thread [OF h1 h2 h3 h4, of cfg0 "''hi''" "''1700.0002''"] h1 h2 h3 h4
  show ?thesis by (simp add: mapping_docs_def)
qed

subsection \<open>A reply without segments\<close>

text \<open>
  Claim C8. When the trimmed reply is not empty and the segmenter returns no segment, the
  handler posts the reply as one message: among the calls of the posting step, the posts
  other than the feedback message are exactly one, and it carries the trimmed reply,
  either as the rich-text block made from it (with the first 200 characters as the plain
  text beside it) or, when no block can be made, as its plain text.
\<close>

theorem no_segments_posts_raw_reply:
  assumes ne: "trimmedReply \<noteq> []" and none: "extractTextAndCode env trimmedReply = []"
  shows "filter is_reply_post
           (new_calls w (snd (post_reply env cfg event replyTarget ws trimmedReply w)))
         = [ChatPostMessage (raw_reply_message env (ev_channel event) replyTarget trimmedReply)]
       \<and> p_blocks (raw_reply_message env (ev_channel event) replyTarget trimmedReply)
         = map_option RichText (markdownToRichTextBlock env trimmedReply)
       \<and> p_text (raw_reply_message env (ev_channel event) replyTarget trimmedReply)
         = (if markdownToRichTextBlock env trimmedReply = None then trimmedReply
            else substring_0_200 trimmedReply)"
proof -
  let ?m = "ChatPostMessage (raw_reply_message env (ev_channel event) replyTarget trimmedReply)"
  have r: "is_reply_post ?m"
    using raw_reply_message_not_feedback by (simp del: is_feedback.simps)
  have "\<exists>fb. calls (snd (post_reply env cfg event replyTarget ws trimmedReply w))
            = calls w @ (?m # fb) \<and> filter is_reply_post fb = []"
    using ne none
    by (cases "chat_postMessage env (calls w @ [?m])")
       (auto simp: post_reply_def reply_posting_def post_raw_reply_def perform_eq Let_def
          post_feedback_calls simp del: is_feedback.simps)
  then obtain fb where
    c: "calls (snd (post_reply env cfg event replyTarget ws trimmedReply w)) = calls w @ (?m # fb)"
    and f: "filter is_reply_post fb = []" by blast
  from c have "new_calls w (snd (post_reply env cfg event replyTarget ws trimmedReply w)) = ?m # fb"
    by (rule new_calls_append)
  with r f show ?thesis
    by (simp add: raw_reply_message_def text_message_def split: option.splits)
qed

theorem no_segments_posts_raw_reply_witness:
  "''hello'' \<noteq> [] \<and> extractTextAndCode env_no_segments ''hello'' = []
   \<and> filter is_reply_post
        (new_calls w0 (snd (post_reply env_no_segments cfg0 (event0 ''hi'') ''1700.0001''
                              (Some ''docs'') ''hello'' w0)))
      = [ChatPostMessage (text_message ''C1'' ''1700.0001'' ''hello'')]"
proof -
  have h1: "''hello'' \<noteq> []" by simp
  have h2: "extractTextAndCode env_no_segments ''hello'' = []"
    by (simp add: env_no_segments_def env0_def)
  have m: "raw_reply_message env_no_segments (ev_channel (event0 ''hi'')) ''1700.0001'' ''hello''
             = text_message ''C1'' ''1700.0001'' ''hello''"
    by (simp add: raw_reply_message_def env_no_segments_def env0_def event0_def)
  from no_segments_posts_raw_reply [OF h1 h2, of w0 cfg0 "event0 ''hi''" "''1700.0001''" "Some ''docs''"]
    h1 h2 m
  show ?thesis by simp
qed

subsection \<open>The feedback message\<close>

text \<open>
  Claim C6 says that the feedback buttons are posted if and only if the length of the
  trimmed reply exceeds the threshold. Line 355 compares with \<^verbatim>\<open>>=\<close>: a reply of exactly
  the threshold's length gets the buttons. Below, the model is run on a reply of five
  characters with a threshold of five.
\<close>

theorem feedback_at_threshold_counterexample:
  "queryLlm env0 (calls w0) = Inr (Some ''hello'')
   \<and> \<not> (MIN_SUBSTANTIVE_RESPONSE_LENGTH cfg0 < int (length (trim ''hello'')))
   \<and> filter is_feedback (calls (snd (handleSlackMessageEventInternal env0 cfg0 (event0 ''hi'') w0)))
     = [ChatPostMessage (feedback_message (event0 ''hi'') ''1700.0001'' (Some ''docs''))]"
  by code_simp

text \<open>
  Claim C6, amended. For a trimmed reply that is not empty, the feedback message is
  posted exactly when the length of the reply is at least the threshold and the posting
  of the reply ended normally with a truthy \<^verbatim>\<open>lastMessageTs\<close>. It is a message of its
  own in the reply thread, posted once after all the posts of the reply, none of which
  carries the buttons. In particular nothing is posted below the threshold.
\<close>

theorem feedback_when_substantive_and_posted:
  assumes ne: "trimmedReply \<noteq> []"
    and rp: "reply_posting env event replyTarget trimmedReply w = (r, w1)"
  shows "new_calls w (snd (post_reply env cfg event replyTarget ws trimmedReply w))
         = new_calls w w1
           @ (if MIN_SUBSTANTIVE_RESPONSE_LENGTH cfg \<le> int (length trimmedReply)
                 \<and> (case r of Inl e \<Rightarrow> False | Inr lastMessageTs \<Rightarrow> truthy lastMessageTs)
              then [ChatPostMessage (feedback_message event replyTarget ws)] else [])
       \<and> filter is_feedback (new_calls w w1) = []"
proof -
  from reply_posting_adds [OF rp] obtain cs where
    c: "calls w1 = calls w @ cs" "list_all is_reply_post cs" by blast
  from c(1) have n1: "new_calls w w1 = cs" by (rule new_calls_append)
  have "calls (snd (post_reply env cfg event replyTarget ws trimmedReply w))
         = calls w @ (cs @ (if MIN_SUBSTANTIVE_RESPONSE_LENGTH cfg \<le> int (length trimmedReply)
                 \<and> (case r of Inl e \<Rightarrow> False | Inr lastMessageTs \<Rightarrow> truthy lastMessageTs)
              then [ChatPostMessage (feedback_message event replyTarget ws)] else []))"
    using ne rp c(1) by (cases r) (simp_all add: post_reply_def Let_def post_feedback_calls)
  then have "new_calls w (snd (post_reply env cfg event replyTarget ws trimmedReply w))
         = cs @ (if MIN_SUBSTANTIVE_RESPONSE_LENGTH cfg \<le> int (length trimmedReply)
                 \<and> (case r of Inl e \<Rightarrow> False | Inr lastMessageTs \<Rightarrow> truthy lastMessageTs)
              then [ChatPostMessage (feedback_message event replyTarget ws)] else [])"
    by (rule new_calls_append)
  with n1 reply_post_no_feedback [OF c(2)] show ?thesis by simp
qed

theorem feedback_when_substantive_and_posted_witness:
  "''hello'' \<noteq> []
   \<and> reply_posting env0 (event0 ''hi'') ''1700.0001'' ''hello'' w0
     = (Inr (Some ''1700.0002''),
        \<lparr>calls = [ChatPostMessage \<lparr>p_channel = ''C1'', p_thread_ts = ''1700.0001'',
                     p_text = ''hello'', p_blocks = Some (RichText ''hello'')\<rparr>],
         logs = []\<rparr>)
   \<and> new_calls w0 (snd (post_reply env0 cfg0 (event0 ''hi'') ''1700.0001'' (Some ''docs'') ''hello'' w0))
     = [ChatPostMessage \<lparr>p_channel = ''C1'', p_thread_ts = ''1700.0001'',
                          p_text = ''hello'', p_blocks = Some (RichText ''hello'')\<rparr>,
        ChatPostMessage (feedback_message (event0 ''hi'') ''1700.0001'' (Some ''docs''))]"
proof -
  have h1: "''hello'' \<noteq> []" by simp
  have h2: "reply_posting env0 (event0 ''hi'') ''1700.0001'' ''hello'' w0
     = (Inr (Some ''1700.0002''),
        \<lparr>calls = [ChatPostMessage \<lparr>p_channel = ''C1'', p_thread_ts = ''1700.0001'',
                     p_text = ''hello'', p_blocks = Some (RichText ''hello'')\<rparr>],
         logs = []\<rparr>)"
    by code_simp
  from feedback_when_substantive_and_posted [OF h1 h2, of cfg0 "Some ''docs''"] h1 h2
  show ?thesis by (simp add: new_calls_def w0_def cfg0_def truthy_def)
qed

subsection \<open>A classifier that fails\<close>

text \<open>
  Claim C5 says that a failure of the intent classification is treated as "no intent"
  and that the query to the LLM still happens. The call of line 255 is inside the
  \<^verbatim>\<open>try\<close> of line 252 and nothing catches its error before line 418. Below, the model
  is run with a classifier that raises.
\<close>

theorem classifier_failure_counterexample:
  "detectIntentAndWorkspace env_classifier_fails
     [ChatPostMessage (text_message ''C1'' ''1700.0001'' processing_text),
      DetectIntentAndWorkspace ''hi''] = Inl (Error ''classifier down'')
   \<and> handleSlackMessageEventInternal env_classifier_fails cfg0 (event0 ''hi'') w0
     = (Inr (),
        \<lparr>calls = [ChatPostMessage (text_message ''C1'' ''1700.0001'' processing_text),
                  DetectIntentAndWorkspace ''hi'',
                  ChatUpdate ''C1'' ''1700.0002'' (oops_text (Error ''classifier down''))],
         logs = [Log Err ''[Msg Handler Error - Intent/LLM Path]'' [ArgError (Error ''classifier down'')]]\<rparr>)"
  by code_simp

text \<open>
  Claim C5, amended. When the classification call raises an error, the fallback makes no
  further call but one: it updates the placeholder to the error message carrying the
  error's text, having logged the error. No workspace is resolved and the LLM is not
  queried.
\<close>

theorem classifier_failure_is_reported:
  assumes fail: "detectIntentAndWorkspace env (calls w @ [DetectIntentAndWorkspace cleanedQuery]) = Inl e"
    and ts: "thinkingMessageTs \<noteq> []" and ch: "ev_channel event \<noteq> []"
  shows "new_calls w (fallback env cfg event cleanedQuery replyTarget thinkingMessageTs w)
         = [DetectIntentAndWorkspace cleanedQuery,
            ChatUpdate (ev_channel event) thinkingMessageTs (oops_text e)]
       \<and> Log Err ''[Msg Handler Error - Intent/LLM Path]'' [ArgError e]
           \<in> set (logs (fallback env cfg event cleanedQuery replyTarget thinkingMessageTs w))"
proof -
  let ?w1 = "w\<lparr>calls := calls w @ [DetectIntentAndWorkspace cleanedQuery]\<rparr>"
  let ?w2 = "console Err ''[Msg Handler Error - Intent/LLM Path]'' [ArgError e] ?w1"
  have f: "fallback env cfg event cleanedQuery replyTarget thinkingMessageTs w
         = updateOrDeleteThinkingMessage env (Some thinkingMessageTs) (ev_channel event)
             (Some (oops_text e)) ?w2"
    using fail ts
    by (simp add: fallback_def intent_and_llm_try_def perform_eq catch_block_def finally_block_def
          truthy_def Let_def)
  have "calls (updateOrDeleteThinkingMessage env (Some thinkingMessageTs) (ev_channel event)
             (Some (oops_text e)) ?w2)
        = calls w @ [DetectIntentAndWorkspace cleanedQuery,
            ChatUpdate (ev_channel event) thinkingMessageTs (oops_text e)]"
    using ts ch by (simp add: updateOrDelete_calls)
  then have n: "new_calls w (updateOrDeleteThinkingMessage env (Some thinkingMessageTs) (ev_channel event)
             (Some (oops_text e)) ?w2)
        = [DetectIntentAndWorkspace cleanedQuery,
            ChatUpdate (ev_channel event) thinkingMessageTs (oops_text e)]"
    by (rule new_calls_append)
  from updateOrDelete_logs_suffix [of env "Some thinkingMessageTs" "ev_channel event"
      "Some (oops_text e)" ?w2]
  obtain ls where "logs (updateOrDeleteThinkingMessage env (Some thinkingMessageTs) (ev_channel event)
             (Some (oops_text e)) ?w2) = logs ?w2 @ ls" by blast
  then have "Log Err ''[Msg Handler Error - Intent/LLM Path]'' [ArgError e]
           \<in> set (logs (updateOrDeleteThinkingMessage env (Some thinkingMessageTs) (ev_channel event)
             (Some (oops_text e)) ?w2))" by simp
  with n f show ?thesis by simp
qed

theorem classifier_failure_is_reported_witness:
  "detectIntentAndWorkspace env_classifier_fails (calls w0 @ [DetectIntentAndWorkspace ''hi''])
     = Inl (Error ''classifier down'')
   \<and> ''1700.0002'' \<noteq> [] \<and> ev_channel (event0 ''hi'') \<noteq> []
   \<and> new_calls w0 (fallback env_classifier_fails cfg0 (event0 ''hi'') ''hi'' ''1700.0001'' ''1700.0002'' w0)
     = [DetectIntentAndWorkspace ''hi'',
        ChatUpdate ''C1'' ''1700.0002'' (oops_text (Error ''classifier down''))]"
proof -
  have h1: "detectIntentAndWorkspace env_classifier_fails (calls w0 @ [DetectIntentAndWorkspace ''hi''])
     = Inl (Error ''classifier down'')"
    by (simp add: env_classifier_fails_def env0_def)
  have h2: "''1700.0002'' \<noteq> []" by simp
  have h3: "ev_channel (event0 ''hi'') \<noteq> []" by (simp add: event0_def)
  from classifier_failure_is_reported [OF h1 h2 h3, of cfg0 "''1700.0001''"] h1 h2 h3
  show ?thesis by (simp add: event0_def)
qed

subsection \<open>What is logged when an error is caught\<close>

lemma post_thinking_logs:
  "logs (snd (post_thinking env ch rt w)) =
     logs w @ (case chat_postMessage env (calls w @ [ChatPostMessage (text_message ch rt processing_text)]) of
                 Inl e \<Rightarrow> [Log Err ''[Msg Handler] Failed post initial thinking message:''
                             [ArgText (error_text e)]]
               | Inr t \<Rightarrow> if truthy t then []
                          else [Log Err ''[Msg Handler] Failed post initial thinking message:''
                                  [ArgText ''Failed to get timestamp from thinking message response.'']])"
  by (simp add: post_thinking_def perform_eq split: sum.splits)

lemma updateOrDelete_logs:
  "ts \<noteq> [] \<Longrightarrow> ch \<noteq> [] \<Longrightarrow>
   logs (updateOrDeleteThinkingMessage env (Some ts) ch a w) =
     logs w @ (case (case a of
                       Some t \<Rightarrow> chat_update env (calls w @ [ChatUpdate ch ts t])
                     | None \<Rightarrow> chat_delete env (calls w @ [ChatDelete ch ts])) of
                 Inr u \<Rightarrow> []
               | Inl e \<Rightarrow> if benign e then []
                          else [Log Warn (if a \<noteq> None then ''[Util] Failed to update thinking message''
                                          else ''[Util] Failed to delete thinking message'')
                                  [ArgText ts, ArgText (error_text e)]])"
  by (simp add: updateOrDeleteThinkingMessage_def perform_eq split: option.splits sum.splits)

lemma create_thread_if_missing_logs:
  "create_thread_if_missing env event rt ws thr w = (r, w') \<Longrightarrow> logs w' = logs w"
  by (auto simp: create_thread_if_missing_def perform_eq split: if_splits sum.splits)

lemma issue_context_logs:
  "issue_context env event rt ews w = (r, w') \<Longrightarrow> logs w' = logs w"
  by (auto simp: issue_context_def perform_eq
           split: if_splits sum.splits option.splits dest!: create_thread_if_missing_logs)

lemma issue_dispatch_logs_error:
  assumes n: "parseInt10 (group g ''issue_number'') = n" "n \<noteq> NaN"
    and c: "issue_try env cfg event rt ts g n w = (Inl e, w1)"
  shows "Log Err ''[Msg Handler-IssueCmd] Context/Thread Setup Error:'' [ArgError e]
           \<in> set (logs (snd (issue_analysis_dispatch env cfg event rt ts g w)))"
proof -
  let ?w2 = "console Err ''[Msg Handler-IssueCmd] Context/Thread Setup Error:'' [ArgError e] w1"
  from updateOrDelete_logs_suffix [of env "Some ts" "ev_channel event"
      "Some (issue_context_error_text e)" ?w2]
  obtain ls where "logs (updateOrDeleteThinkingMessage env (Some ts) (ev_channel event)
      (Some (issue_context_error_text e)) ?w2) = logs ?w2 @ ls" by blast
  with n c show ?thesis by (simp add: issue_analysis_dispatch_def Let_def)
qed

lemma post_one_segment_logs:
  "logs (snd (post_one_segment env ch rt i st ft l w)) =
     logs w
     @ (case markdownToRichTextBlock env st of
          None \<Rightarrow> [Log Warn ''[Msg Handler] Failed block for seg. Posting raw.'' [ArgNat (i + 1)]]
        | Some b \<Rightarrow> [])
     @ (case chat_postMessage env
               (calls w @ [ChatPostMessage
                  (case markdownToRichTextBlock env st of
                     Some b \<Rightarrow> \<lparr>p_channel = ch, p_thread_ts = rt, p_text = ft,
                                 p_blocks = Some (RichText b)\<rparr>
                   | None \<Rightarrow> text_message ch rt st)]) of
          Inl e \<Rightarrow> [Log Err ''[Msg Handler] Error posting seg''
                      [ArgNat (i + 1), ArgBool (markdownToRichTextBlock env st \<noteq> None),
                       ArgText (error_text e)]]
        | Inr res \<Rightarrow> [])"
  by (simp add: post_one_segment_def perform_eq Let_def split: option.splits sum.splits)

lemma post_feedback_logs:
  "logs (post_feedback env event rt ws l b w) =
     logs w @ (if truthy l \<and> b then
                 (case chat_postMessage env
                         (calls w @ [ChatPostMessage (feedback_message event rt ws)]) of
                    Inl e \<Rightarrow> [Log Warn ''[Msg Handler] Failed post feedback buttons:''
                                [ArgText (error_text e)]]
                  | Inr res \<Rightarrow> [])
               else [])"
  by (simp add: post_feedback_def perform_eq split: sum.splits)

lemma catch_block_logs_posted:
  "logs (snd (catch_block env event rt e None w)) =
     logs w @ [Log Err ''[Msg Handler Error - Intent/LLM Path]'' [ArgError e]]"
  by (simp add: catch_block_def perform_eq truthy_def Let_def)

lemma fallback_logs_error:
  assumes run: "intent_and_llm_try env cfg event q rt ts w = (Inl e, t, w1)"
  shows "Log Err ''[Msg Handler Error - Intent/LLM Path]'' [ArgError e]
           \<in> set (logs (fallback env cfg event q rt ts w))"
proof (cases "truthy t")
  case True
  let ?w2 = "console Err ''[Msg Handler Error - Intent/LLM Path]'' [ArgError e] w1"
  from updateOrDelete_logs_suffix [of env t "ev_channel event" "Some (oops_text e)" ?w2]
  obtain ls where "logs (updateOrDeleteThinkingMessage env t (ev_channel event)
      (Some (oops_text e)) ?w2) = logs ?w2 @ ls" by blast
  with run True show ?thesis
    by (simp add: fallback_def catch_block_def finally_block_def Let_def truthy_def)
next
  case False
  with run show ?thesis
    by (simp add: fallback_def catch_block_def finally_block_def Let_def perform_eq)
qed

text \<open>
  Claim C9 says that every caught error leaves a log entry. Three catch sites log
  nothing: the catch of the plain-text retry of a segment post (line 394), the
  \<^verbatim>\<open>.catch(()=>{})\<close> on the post of the error notice (line 424), and the catch of
  \<^verbatim>\<open>updateOrDeleteThinkingMessage\<close> for the Slack errors \<^verbatim>\<open>message_not_found\<close> and
  \<^verbatim>\<open>cant_update_message\<close> (line 82). Below, the first post of the only segment fails
  with one error and its retry with another; the retry is the last call of the run, and
  its error appears in no log entry and in no message.
\<close>

theorem swallowed_retry_error_counterexample:
  "chat_postMessage env_posts_fail
      (calls (snd (handleSlackMessageEventInternal env_posts_fail cfg0 (event0 ''hi'') w0)))
     = Inl (Error ''second failure'')
   \<and> handleSlackMessageEventInternal env_posts_fail cfg0 (event0 ''hi'') w0
     = (Inr (),
        \<lparr>calls = [ChatPostMessage (text_message ''C1'' ''1700.0001'' processing_text),
                  DetectIntentAndWorkspace ''hi'',
                  DetermineWorkspace None ''U1'' ''C1'',
                  GetAnythingLLMThreadMapping ''C1'' ''1700.0001'',
                  CreateNewAnythingLLMThread (Some ''docs''),
                  StoreAnythingLLMThreadMapping ''C1'' ''1700.0001'' (Some ''docs'') (Some ''thread-new''),
                  ChatUpdate ''C1'' ''1700.0002'' (thinking_in_text (Some ''docs'')),
                  QueryLlm (Some ''docs'') (Some ''thread-new'') (llmInputText_of cfg0 ''hi''),
                  ChatDelete ''C1'' ''1700.0002'',
                  ChatPostMessage \<lparr>p_channel = ''C1'', p_thread_ts = ''1700.0001'', p_text = ''hello'',
                                    p_blocks = Some (RichText ''hello'')\<rparr>,
                  ChatPostMessage (text_message ''C1'' ''1700.0001'' ''hello'')],
         logs = [Log Err ''[Msg Handler] Error posting seg''
                   [ArgNat 1, ArgBool True, ArgText ''first failure'']]\<rparr>)"
  by code_simp

text \<open>
  Claim C9, amended. The log entries written at the catch sites are exactly these:
  a failed placeholder post is logged; a failed update or deletion of the placeholder is
  logged unless the error is \<^verbatim>\<open>message_not_found\<close> or \<^verbatim>\<open>cant_update_message\<close>; an error
  in the context setup or the executor of the issue command is logged; the first failed
  post of a segment is logged, and the outcome of its retry changes nothing in the log;
  a failed feedback post is logged; an error thrown inside the fallback's \<^verbatim>\<open>try\<close> is
  logged; and the post of the error notice in the catch block adds nothing to the log,
  whether it fails or not.
\<close>

theorem caught_errors_logged_or_swallowed:
  "logs (snd (post_thinking env ch rt w)) =
     logs w @ (case chat_postMessage env (calls w @ [ChatPostMessage (text_message ch rt processing_text)]) of
                 Inl e \<Rightarrow> [Log Err ''[Msg Handler] Failed post initial thinking message:''
                             [ArgText (error_text e)]]
               | Inr t \<Rightarrow> if truthy t then []
                          else [Log Err ''[Msg Handler] Failed post initial thinking message:''
                                  [ArgText ''Failed to get timestamp from thinking message response.'']])
   \<and> (ts \<noteq> [] \<and> ch \<noteq> [] \<longrightarrow>
        logs (updateOrDeleteThinkingMessage env (Some ts) ch a w) =
          logs w @ (case (case a of
                            Some t \<Rightarrow> chat_update env (calls w @ [ChatUpdate ch ts t])
                          | None \<Rightarrow> chat_delete env (calls w @ [ChatDelete ch ts])) of
                      Inr u \<Rightarrow> []
                    | Inl e \<Rightarrow> if benign e then []
                               else [Log Warn (if a \<noteq> None then ''[Util] Failed to update thinking message''
                                               else ''[Util] Failed to delete thinking message'')
                                       [ArgText ts, ArgText (error_text e)]]))
   \<and> (parseInt10 (group g ''issue_number'') = n \<and> n \<noteq> NaN
        \<and> issue_try env cfg event rt ts g n w = (Inl e1, w1) \<longrightarrow>
        Log Err ''[Msg Handler-IssueCmd] Context/Thread Setup Error:'' [ArgError e1]
          \<in> set (logs (snd (issue_analysis_dispatch env cfg event rt ts g w))))
   \<and> logs (snd (post_one_segment env ch rt i st ft l w)) =
       logs w
       @ (case markdownToRichTextBlock env st of
            None \<Rightarrow> [Log Warn ''[Msg Handler] Failed block for seg. Posting raw.'' [ArgNat (i + 1)]]
          | Some b \<Rightarrow> [])
       @ (case chat_postMessage env
                 (calls w @ [ChatPostMessage
                    (case markdownToRichTextBlock env st of
                       Some b \<Rightarrow> \<lparr>p_channel = ch, p_thread_ts = rt, p_text = ft,
                                   p_blocks = Some (RichText b)\<rparr>
                     | None \<Rightarrow> text_message ch rt st)]) of
            Inl e \<Rightarrow> [Log Err ''[Msg Handler] Error posting seg''
                        [ArgNat (i + 1), ArgBool (markdownToRichTextBlock env st \<noteq> None),
                         ArgText (error_text e)]]
          | Inr res \<Rightarrow> [])
   \<and> logs (post_feedback env event rt ws l b w) =
       logs w @ (if truthy l \<and> b then
                   (case chat_postMessage env
                           (calls w @ [ChatPostMessage (feedback_message event rt ws)]) of
                      Inl e \<Rightarrow> [Log Warn ''[Msg Handler] Failed post feedback buttons:''
                                  [ArgText (error_text e)]]
                    | Inr res \<Rightarrow> [])
                 else [])
   \<and> (intent_and_llm_try env cfg event q rt ts w = (Inl e2, t2, w2) \<longrightarrow>
        Log Err ''[Msg Handler Error - Intent/LLM Path]'' [ArgError e2]
          \<in> set (logs (fallback env cfg event q rt ts w)))
   \<and> logs (snd (catch_block env event rt e3 None w)) =
       logs w @ [Log Err ''[Msg Handler Error - Intent/LLM Path]'' [ArgError e3]]"
  using post_thinking_logs [of env ch rt w] updateOrDelete_logs [of ts ch env a w]
    issue_dispatch_logs_error [of g n env cfg event rt ts w e1 w1]
    post_one_segment_logs [of env ch rt i st ft l w] post_feedback_logs [of env event rt ws l b w]
    fallback_logs_error [of env cfg event q rt ts w e2 t2 w2]
    catch_block_logs_posted [of env event rt e3 w]
  by blast

theorem caught_errors_logged_or_swallowed_witness:
  "''1700.0002'' \<noteq> [] \<and> ''C1'' \<noteq> []
   \<and> parseInt10 (group [(''issue_number'', ''5'')] ''issue_number'') = Integral 5
   \<and> Integral 5 \<noteq> NaN
   \<and> issue_try env_services_down cfg0 (event0 ''gh> analyze issue #5'') ''1700.0001'' ''1700.0002''
        [(''issue_number'', ''5'')] (Integral 5) w0
     = (Inl (Error ''store down''),
        \<lparr>calls = [GetAnythingLLMThreadMapping ''C1'' ''1700.0001''], logs = []\<rparr>)
   \<and> Log Err ''[Msg Handler-IssueCmd] Context/Thread Setup Error:'' [ArgError (Error ''store down'')]
       \<in> set (logs (snd (issue_analysis_dispatch env_services_down cfg0 (event0 ''gh> analyze issue #5'')
                            ''1700.0001'' ''1700.0002'' [(''issue_number'', ''5'')] w0)))
   \<and> intent_and_llm_try env_services_down cfg0 (event0 ''gh> analyze issue #5'') ''hi'' ''1700.0001''
        ''1700.0002'' w0
     = (Inl (Error ''classifier down''), Some ''1700.0002'',
        \<lparr>calls = [DetectIntentAndWorkspace ''hi''], logs = []\<rparr>)
   \<and> Log Err ''[Msg Handler Error - Intent/LLM Path]'' [ArgError (Error ''classifier down'')]
       \<in> set (logs (fallback env_services_down cfg0 (event0 ''gh> analyze issue #5'') ''hi''
                       ''1700.0001'' ''1700.0002'' w0))"
proof -
  have h1: "''1700.0002'' \<noteq> [] \<and> ''C1'' \<noteq> []" by simp
  have h2: "parseInt10 (group [(''issue_number'', ''5'')] ''issue_number'') = Integral 5
              \<and> Integral 5 \<noteq> NaN"
    by code_simp
  have h3: "issue_try env_services_down cfg0 (event0 ''gh> analyze issue #5'') ''1700.0001'' ''1700.0002''
        [(''issue_number'', ''5'')] (Integral 5) w0
     = (Inl (Error ''store down''),
        \<lparr>calls = [GetAnythingLLMThreadMapping ''C1'' ''1700.0001''], logs = []\<rparr>)"
    by code_simp
  have h4: "intent_and_llm_try env_services_down cfg0 (event0 ''gh> analyze issue #5'') ''hi'' ''1700.0001''
        ''1700.0002'' w0
     = (Inl (Error ''classifier down''), Some ''1700.0002'',
        \<lparr>calls = [DetectIntentAndWorkspace ''hi''], logs = []\<rparr>)"
    by code_simp
  from caught_errors_logged_or_swallowed
         [of env_services_down "''C1''" "''1700.0001''" w0 "''1700.0002''" _
             "[(''issue_number'', ''5'')]" "Integral 5" cfg0 "event0 ''gh> analyze issue #5''"
             "Error ''store down''" "\<lparr>calls = [GetAnythingLLMThreadMapping ''C1'' ''1700.0001''], logs = []\<rparr>"
             _ _ _ _ _ _ "''hi''" "Error ''classifier down''" "Some ''1700.0002''"
             "\<lparr>calls = [DetectIntentAndWorkspace ''hi''], logs = []\<rparr>"]
    h1 h2 h3 h4
  show ?thesis by blast
qed

subsection \<open>What the grammars capture\<close>

text \<open>
  Every group of the four grammars that takes part in a match captures a non-empty text,
  and the two number groups capture digits only. So a match of the PR-review grammar
  always passes the test of line 164, and the issue number of a match of the
  issue-analysis grammar is always a number: the two format errors of the command block
  answer parameters that no match can produce.
\<close>

lemma star_rounds_rel:
  assumes refl: "\<And>st. R st st"
    and trans: "\<And>a b c. R a b \<Longrightarrow> R b c \<Longrightarrow> R a c"
    and step: "\<And>st st'. st' \<in> set (f st) \<Longrightarrow> R st st'"
  shows "st' \<in> set (star_rounds n f st) \<Longrightarrow> R st st'"
proof (induction n arbitrary: st)
  case 0
  then show ?case using refl by simp
next
  case (Suc n)
  from Suc.prems consider "st' = st"
    | st1 where "st1 \<in> set (f st)" "st' \<in> set (star_rounds n f st1)"
    by auto
  then show ?case
  proof cases
    case 1
    then show ?thesis using refl by simp
  next
    case 2
    from step [OF 2(1)] Suc.IH [OF 2(2)] show ?thesis by (rule trans)
  qed
qed

lemma run_Cls_mem:
  "st' \<in> set (run (Cls p) st) \<longleftrightarrow> (\<exists>x xs. fst st = x # xs \<and> p x \<and> st' = (xs, snd st))"
  by (cases "fst st") auto

lemma run_Seq_mem:
  "st' \<in> set (run (Seq a b) st) \<longleftrightarrow> (\<exists>st1. st1 \<in> set (run a st) \<and> st' \<in> set (run b st1))"
  by auto

lemma run_Alt_mem:
  "st' \<in> set (run (Alt a b) st) \<longleftrightarrow> st' \<in> set (run a st) \<or> st' \<in> set (run b st)"
  by simp

lemma run_Opt_mem:
  "st' \<in> set (run (Opt a) st) \<longleftrightarrow> st' \<in> set (run a st) \<or> st' = st"
  by auto

lemma run_Grp_mem:
  "st' \<in> set (run (Grp n a) st) \<longleftrightarrow>
     (\<exists>st1. st1 \<in> set (run a st)
        \<and> st' = (fst st1, (n, take (length (fst st) - length (fst st1)) (fst st)) # snd st1))"
  by force

lemma run_Eos_mem: "st' \<in> set (run Eos st) \<longleftrightarrow> fst st = [] \<and> st' = st"
  by auto

lemma run_Star_rel:
  assumes "st' \<in> set (run (Star a) st)"
    and "\<And>st. R st st" and "\<And>a b c. R a b \<Longrightarrow> R b c \<Longrightarrow> R a c"
    and "\<And>st st'. st' \<in> set (run a st) \<Longrightarrow> R st st'"
  shows "R st st'"
proof -
  from assms(1) have "st' \<in> set (star_rounds (length (fst st)) (run a) st)" by simp
  then show ?thesis
    using assms(2-4) by (rule star_rounds_rel [where R = R and f = "run a", rotated 3])
qed

lemma reads_refl: "reads P st st"
  by (simp add: reads_def)

lemma reads_trans: "reads P a b \<Longrightarrow> reads P b c \<Longrightarrow> reads P a c"
proof -
  assume "reads P a b" "reads P b c"
  then obtain p1 p2 where "fst a = p1 @ fst b" "list_all P p1" "fst b = p2 @ fst c" "list_all P p2"
    by (auto simp: reads_def)
  then have "fst a = (p1 @ p2) @ fst c \<and> list_all P (p1 @ p2)" by simp
  then show ?thesis unfolding reads_def by blast
qed

lemma run_reads_only:
  "reads_only P r \<Longrightarrow> st' \<in> set (run r st) \<Longrightarrow> reads P st st'"
proof (induction r arbitrary: st st')
  case (Cls p)
  from Cls.prems(2) obtain x xs where "fst st = x # xs" "p x" "st' = (xs, snd st)"
    unfolding run_Cls_mem by blast
  with Cls.prems(1) have "fst st = [x] @ fst st' \<and> list_all P [x]" by simp
  then show ?case unfolding reads_def by blast
next
  case (Seq a b)
  from Seq.prems(2) obtain st1 where s: "st1 \<in> set (run a st)" "st' \<in> set (run b st1)"
    unfolding run_Seq_mem by blast
  from Seq.prems(1) have "reads_only P a" "reads_only P b" by simp_all
  with Seq.IH s have "reads P st st1" "reads P st1 st'" by blast+
  then show ?case by (rule reads_trans)
next
  case (Alt a b)
  from Alt.prems(1) have "reads_only P a" "reads_only P b" by simp_all
  with Alt.IH Alt.prems(2) show ?case unfolding run_Alt_mem by blast
next
  case (Star a)
  from Star.prems(1) have "reads_only P a" by simp
  with Star.IH have step: "\<And>st st'. st' \<in> set (run a st) \<Longrightarrow> reads P st st'" by blast
  show ?case
    by (rule run_Star_rel [where R = "reads P" and a = a, OF Star.prems(2)])
       (blast intro: reads_refl reads_trans step)+
next
  case (Opt a)
  from Opt.prems(1) have "reads_only P a" by simp
  with Opt.IH Opt.prems(2) reads_refl show ?case unfolding run_Opt_mem by blast
next
  case (Grp n a)
  from Grp.prems(2) obtain st1 where s: "st1 \<in> set (run a st)" "fst st' = fst st1"
    unfolding run_Grp_mem by auto
  from Grp.prems(1) have "reads_only P a" by simp
  with Grp.IH s(1) have "reads P st st1" by blast
  with s(2) show ?case by (simp add: reads_def)
next
  case Eps
  then show ?case by (simp add: reads_refl)
next
  case Eos
  then show ?case unfolding run_Eos_mem by (simp add: reads_refl)
qed

lemma reads_only_anything: "reads_only (\<lambda>c. True) r"
  by (induction r) simp_all

lemma run_suffix: "st' \<in> set (run r st) \<Longrightarrow> \<exists>pre. fst st = pre @ fst st'"
  using run_reads_only [OF reads_only_anything, of st' r st] by (auto simp: reads_def)

lemma run_length: "st' \<in> set (run r st) \<Longrightarrow> length (fst st') \<le> length (fst st)"
  using run_suffix [of st' r st] by auto

lemma run_consuming:
  "consuming r \<Longrightarrow> st' \<in> set (run r st) \<Longrightarrow> length (fst st') < length (fst st)"
proof (induction r arbitrary: st st')
  case (Cls p)
  from Cls.prems(2) obtain x xs where "fst st = x # xs" "st' = (xs, snd st)"
    unfolding run_Cls_mem by blast
  then show ?case by simp
next
  case (Seq a b)
  from Seq.prems(2) obtain st1 where s: "st1 \<in> set (run a st)" "st' \<in> set (run b st1)"
    unfolding run_Seq_mem by blast
  from Seq.prems(1) have "consuming a \<or> consuming b" by simp
  then show ?case
  proof
    assume "consuming a"
    from Seq.IH(1) [OF this s(1)] run_length [OF s(2)] show ?thesis by simp
  next
    assume "consuming b"
    from Seq.IH(2) [OF this s(2)] run_length [OF s(1)] show ?thesis by simp
  qed
next
  case (Alt a b)
  from Alt.prems(1) have "consuming a" "consuming b" by simp_all
  with Alt.IH Alt.prems(2) show ?case unfolding run_Alt_mem by blast
next
  case (Grp n a)
  from Grp.prems(2) obtain st1 where s: "st1 \<in> set (run a st)" "fst st' = fst st1"
    unfolding run_Grp_mem by auto
  from Grp.prems(1) have "consuming a" by simp
  from Grp.IH [OF this s(1)] s(2) show ?case by simp
qed simp_all

lemma run_captures_well:
  "captures_well r \<Longrightarrow> st' \<in> set (run r st) \<Longrightarrow> keeps_ok st st'"
proof (induction r arbitrary: st st')
  case (Cls p)
  from Cls.prems(2) have "snd st' = snd st"
    unfolding run_Cls_mem by auto
  then show ?case by (simp add: keeps_ok_def)
next
  case (Seq a b)
  from Seq.prems(2) obtain st1 where s: "st1 \<in> set (run a st)" "st' \<in> set (run b st1)"
    unfolding run_Seq_mem by blast
  from Seq.prems(1) have "captures_well a" "captures_well b" by simp_all
  with Seq.IH s have "keeps_ok st st1" "keeps_ok st1 st'" by blast+
  then show ?case by (simp add: keeps_ok_def)
next
  case (Alt a b)
  from Alt.prems(1) have "captures_well a" "captures_well b" by simp_all
  with Alt.IH Alt.prems(2) show ?case unfolding run_Alt_mem by blast
next
  case (Star a)
  from Star.prems(1) have "captures_well a" by simp
  with Star.IH have step: "\<And>st st'. st' \<in> set (run a st) \<Longrightarrow> keeps_ok st st'" by blast
  show ?case
  proof (rule run_Star_rel [where R = keeps_ok and a = a, OF Star.prems(2)])
    show "\<And>st. keeps_ok st st" by (simp add: keeps_ok_def)
    show "\<And>a b c. keeps_ok a b \<Longrightarrow> keeps_ok b c \<Longrightarrow> keeps_ok a c"
      by (simp add: keeps_ok_def)
    show "\<And>st st'. st' \<in> set (run a st) \<Longrightarrow> keeps_ok st st'" by (rule step)
  qed
next
  case (Opt a)
  from Opt.prems(1) have cw: "captures_well a" by simp
  from Opt.prems(2) have "st' \<in> set (run a st) \<or> st' = st" unfolding run_Opt_mem .
  then show ?case
  proof
    assume "st' \<in> set (run a st)"
    with cw show ?thesis by (rule Opt.IH)
  next
    assume "st' = st"
    then show ?thesis by (simp add: keeps_ok_def)
  qed
next
  case (Grp n a)
  from Grp.prems(2) obtain st1 where
    s: "st1 \<in> set (run a st)"
    and st': "st' = (fst st1, (n, take (length (fst st) - length (fst st1)) (fst st)) # snd st1)"
    unfolding run_Grp_mem by blast
  from Grp.prems(1) have cw: "captures_well a" and c: "consuming a"
    and d: "number_group n \<longrightarrow> reads_only is_digit a" by simp_all
  from Grp.IH [OF cw s] have k: "keeps_ok st st1" .
  from run_consuming [OF c s] have ne: "take (length (fst st) - length (fst st1)) (fst st) \<noteq> []"
    by auto
  have dig: "number_group n \<longrightarrow> list_all is_digit (take (length (fst st) - length (fst st1)) (fst st))"
  proof
    assume "number_group n"
    with d have "reads_only is_digit a" by simp
    from run_reads_only [OF this s] obtain pre where
      "fst st = pre @ fst st1" "list_all is_digit pre" by (auto simp: reads_def)
    then show "list_all is_digit (take (length (fst st) - length (fst st1)) (fst st))" by simp
  qed
  from k ne dig st' show ?case by (simp add: keeps_ok_def capture_ok_def)
next
  case Eps
  then show ?case by (simp add: keeps_ok_def)
next
  case Eos
  then show ?case unfolding run_Eos_mem by (simp add: keeps_ok_def)
qed

lemma run_groups_persist: "st' \<in> set (run r st) \<Longrightarrow> keeps_names st st'"
proof (induction r arbitrary: st st')
  case (Cls p)
  from Cls.prems have "snd st' = snd st"
    unfolding run_Cls_mem by auto
  then show ?case by (simp add: keeps_names_def)
next
  case (Seq a b)
  from Seq.prems obtain st1 where s: "st1 \<in> set (run a st)" "st' \<in> set (run b st1)"
    unfolding run_Seq_mem by blast
  with Seq.IH have "keeps_names st st1" "keeps_names st1 st'" by blast+
  then show ?case by (auto simp: keeps_names_def)
next
  case (Alt a b)
  with Alt.IH show ?case unfolding run_Alt_mem by blast
next
  case (Star a)
  from Star.IH have step: "\<And>st st'. st' \<in> set (run a st) \<Longrightarrow> keeps_names st st'" by blast
  show ?case
  proof (rule run_Star_rel [where R = keeps_names and a = a, OF Star.prems])
    show "\<And>st. keeps_names st st" by (simp add: keeps_names_def)
    show "\<And>a b c. keeps_names a b \<Longrightarrow> keeps_names b c \<Longrightarrow> keeps_names a c"
      by (auto simp: keeps_names_def)
    show "\<And>st st'. st' \<in> set (run a st) \<Longrightarrow> keeps_names st st'" by (rule step)
  qed
next
  case (Opt a)
  from Opt.prems have "st' \<in> set (run a st) \<or> st' = st" unfolding run_Opt_mem .
  then show ?case
  proof
    assume "st' \<in> set (run a st)"
    then show ?thesis by (rule Opt.IH)
  next
    assume "st' = st"
    then show ?thesis by (simp add: keeps_names_def)
  qed
next
  case (Grp n a)
  from Grp.prems obtain st1 where
    s: "st1 \<in> set (run a st)"
    and st': "st' = (fst st1, (n, take (length (fst st) - length (fst st1)) (fst st)) # snd st1)"
    unfolding run_Grp_mem by blast
  from Grp.IH [OF s] st' show ?case by (auto simp: keeps_names_def)
next
  case Eps
  then show ?case by (simp add: keeps_names_def)
next
  case Eos
  then show ?case unfolding run_Eos_mem by (simp add: keeps_names_def)
qed

lemma run_sure_groups:
  "st' \<in> set (run r st) \<Longrightarrow> sure_groups r \<subseteq> fst ` set (snd st')"
proof (induction r arbitrary: st st')
  case (Seq a b)
  from Seq.prems obtain st1 where s: "st1 \<in> set (run a st)" "st' \<in> set (run b st1)"
    unfolding run_Seq_mem by blast
  from Seq.IH(1) [OF s(1)] run_groups_persist [OF s(2)] Seq.IH(2) [OF s(2)] show ?case
    by (auto simp: keeps_names_def)
next
  case (Alt a b)
  from Alt.prems have "st' \<in> set (run a st) \<or> st' \<in> set (run b st)" unfolding run_Alt_mem .
  then show ?case
  proof
    assume "st' \<in> set (run a st)"
    from Alt.IH(1) [OF this] show ?thesis by auto
  next
    assume "st' \<in> set (run b st)"
    from Alt.IH(2) [OF this] show ?thesis by auto
  qed
next
  case (Grp n a)
  from Grp.prems obtain st1 where
    s: "st1 \<in> set (run a st)"
    and st': "st' = (fst st1, (n, take (length (fst st) - length (fst st1)) (fst st)) # snd st1)"
    unfolding run_Grp_mem by blast
  from Grp.IH [OF s] st' show ?case by auto
qed simp_all

lemma regex_match_captures:
  assumes m: "regex_match r q = Some g" and cw: "captures_well r" and n: "n \<in> sure_groups r"
  shows "\<exists>t. group g n = Some t \<and> capture_ok (n, t)"
proof -
  from m obtain st where st: "st \<in> set (run r (q, []))" "g = snd st"
    by (auto simp: regex_match_def split: list.splits)
  from run_captures_well [OF cw st(1)] st(2) have ok: "list_all capture_ok g"
    by (simp add: keeps_ok_def)
  from run_sure_groups [OF st(1)] n st(2) have "n \<in> fst ` set g" by auto
  then obtain t where t: "map_of g n = Some t"
    by (metis map_of_eq_None_iff not_Some_eq)
  then have "(n, t) \<in> set g" by (rule map_of_SomeD)
  with ok have "capture_ok (n, t)" by (simp add: list_all_iff)
  with t show ?thesis by (simp add: group_def)
qed

lemma lit_plain [simp]: "captures_well (lit s)" "sure_groups (lit s) = {}"
  by (induction s) (simp_all add: lit_def)


lemma hash_override_removed:
  "replace_by_empty hash_override_regex ''deploy #docs today'' = ''deploy  today''
   \<and> replace_by_empty hash_override_regex ''deploy # today'' = ''deploy # today''"
  by code_simp

lemma parseInt10_rounds:
  "parseInt10 (Some ''9007199254740993'') = Integral 9007199254740992
   \<and> parseInt10 (Some ''9007199254740995'') = Integral 9007199254740996"
  by code_simp



lemma release_captures:
  assumes "regex_match (RELEASE_REGEX p) q = Some g"
  shows "truthy (group g ''repo_id'')"
proof -
  have cw: "captures_well (RELEASE_REGEX p)"
    by (simp add: RELEASE_REGEX_def seqs_def Plus_def cls_word_dot_dash_def cls_space_def
          number_group_def)
  have sg: "''repo_id'' \<in> sure_groups (RELEASE_REGEX p)"
    by (simp add: RELEASE_REGEX_def seqs_def Plus_def cls_word_dot_dash_def cls_space_def)
  from regex_match_captures [OF assms cw sg] show ?thesis
    by (auto simp: capture_ok_def truthy_def)
qed

lemma generic_api_captures:
  assumes "regex_match (GENERIC_API_REGEX p) q = Some g"
  shows "truthy (group g ''api_query'')"
proof -
  have cw: "captures_well (GENERIC_API_REGEX p)"
    by (simp add: GENERIC_API_REGEX_def seqs_def Plus_def cls_dot_def cls_space_def
          number_group_def)
  have sg: "''api_query'' \<in> sure_groups (GENERIC_API_REGEX p)"
    by (simp add: GENERIC_API_REGEX_def seqs_def Plus_def cls_dot_def cls_space_def)
  from regex_match_captures [OF assms cw sg] show ?thesis
    by (auto simp: capture_ok_def truthy_def)
qed

subsection \<open>The grammars exclude one another\<close>
















subsection \<open>Commands that start with the prefix\<close>

lemma unless_handled_simps [simp]:
  "unless_handled blk (Continue True, w) = (Continue True, w)"
  "unless_handled blk (Continue False, w) = blk w"
  "unless_handled blk (Threw e, w) = (Threw e, w)"
  "unless_handled blk (Returned, w) = (Returned, w)"
  by (simp_all add: unless_handled_def)
















text \<open>
  The two format-error branches, entered with parameters that fail their tests: the reply
  is the format error and the message is handled. By \<open>pr_review_captures\<close> and
  \<open>issue_analysis_captures\<close> no match of the grammars carries such parameters.
\<close>

lemma malformed_pr_params:
  assumes bad: "\<not> valid_pr_params g" and ts: "ts \<noteq> []" and ch: "ev_channel event \<noteq> []"
  shows "fst (pr_review_dispatch env event rt ts g w) = Continue True
       \<and> new_calls w (snd (pr_review_dispatch env event rt ts g w))
         = [ChatUpdate (ev_channel event) ts invalid_pr_format_text]"
proof -
  have "fst (pr_review_dispatch env event rt ts g w) = Continue True
       \<and> calls (snd (pr_review_dispatch env event rt ts g w))
         = calls w @ [ChatUpdate (ev_channel event) ts invalid_pr_format_text]"
    using bad ts ch
    by (auto simp: pr_review_dispatch_def valid_pr_params_def Let_def updateOrDelete_calls
          split: option.splits)
  then show ?thesis by simp
qed

lemma malformed_issue_number:
  assumes bad: "parseInt10 (group g ''issue_number'') = NaN"
    and ts: "ts \<noteq> []" and ch: "ev_channel event \<noteq> []"
  shows "fst (issue_analysis_dispatch env cfg event rt ts g w) = Continue True
       \<and> new_calls w (snd (issue_analysis_dispatch env cfg event rt ts g w))
         = [ChatUpdate (ev_channel event) ts invalid_issue_number_text]"
proof -
  have "fst (issue_analysis_dispatch env cfg event rt ts g w) = Continue True
       \<and> calls (snd (issue_analysis_dispatch env cfg event rt ts g w))
         = calls w @ [ChatUpdate (ev_channel event) ts invalid_issue_number_text]"
    using bad ts ch
    by (simp add: issue_analysis_dispatch_def updateOrDelete_calls)
  then show ?thesis by simp
qed

lemma no_llm_call_betweenI:
  "calls w' = calls w @ cs \<Longrightarrow> \<not> list_ex is_llm_call cs \<Longrightarrow> no_llm_call_between w w'"
  by (simp add: no_llm_call_between_def new_calls_def)

lemma no_llm_call_betweenD:
  "no_llm_call_between w w' \<Longrightarrow> \<exists>cs. calls w' = calls w @ cs \<and> \<not> list_ex is_llm_call cs"
  unfolding no_llm_call_between_def new_calls_def
  by (metis append_take_drop_id)

lemma no_llm_refl [simp]: "no_llm_call_between w w"
  by (simp add: no_llm_call_between_def new_calls_def)

lemma no_llm_trans:
  "no_llm_call_between w w1 \<Longrightarrow> no_llm_call_between w1 w2 \<Longrightarrow> no_llm_call_between w w2"
proof -
  assume "no_llm_call_between w w1" "no_llm_call_between w1 w2"
  then obtain cs1 cs2 where "calls w1 = calls w @ cs1" "\<not> list_ex is_llm_call cs1"
    "calls w2 = calls w1 @ cs2" "\<not> list_ex is_llm_call cs2"
    by (blast dest: no_llm_call_betweenD)
  then have "calls w2 = calls w @ (cs1 @ cs2)" "\<not> list_ex is_llm_call (cs1 @ cs2)" by auto
  then show ?thesis by (rule no_llm_call_betweenI)
qed

lemma no_llm_console [simp]: "no_llm_call_between w (console l s a w)"
  by (simp add: no_llm_call_between_def new_calls_def)

lemma no_llm_console_left [simp]:
  "no_llm_call_between (console l s a w) w' = no_llm_call_between w w'"
  by (simp add: no_llm_call_between_def new_calls_def)

lemma no_llm_perform:
  "\<not> is_llm_call c \<Longrightarrow> no_llm_call_between w (snd (perform orc c w))"
  by (simp add: no_llm_call_between_def new_calls_def perform_eq)

lemma no_llm_updateOrDelete [simp]:
  "no_llm_call_between w (updateOrDeleteThinkingMessage env t ch a w)"
proof -
  from updateOrDelete_adds [of env t ch a w] obtain cs where
    c: "calls (updateOrDeleteThinkingMessage env t ch a w) = calls w @ cs"
       "list_all is_placeholder_call cs" by blast
  from c(2) have "\<not> list_ex is_llm_call cs"
    by (induction cs) (auto elim: is_placeholder_call.elims)
  with c(1) show ?thesis by (rule no_llm_call_betweenI)
qed

lemma no_llm_updateOrDelete_console [simp]:
  "no_llm_call_between w (updateOrDeleteThinkingMessage env t ch a (console l s x w))"
  by (rule no_llm_trans [OF no_llm_console no_llm_updateOrDelete])



















subsection \<open>A change of workspace\<close>

text \<open>
  On the query path of the fallback, a message whose resolved workspace differs from the
  workspace of the stored mapping creates one thread in the new workspace and writes
  the mapping, both before the query, which uses the new thread.
\<close>

lemma changed_workspace_on_query_path:
  assumes dw: "determineWorkspace env
                 (calls w @ [DetermineWorkspace suggested (ev_user event) (ev_channel event)]) = Inr W"
    and tw: "truthy W"
    and gm: "getAnythingLLMThreadMapping env
               (calls w @ [DetermineWorkspace suggested (ev_user event) (ev_channel event),
                           GetAnythingLLMThreadMapping (ev_channel event) replyTarget]) = Inr (Some m)"
    and diff: "anythingllm_workspace_slug m \<noteq> W"
    and cr: "createNewAnythingLLMThread env
               (calls w @ [DetermineWorkspace suggested (ev_user event) (ev_channel event),
                           GetAnythingLLMThreadMapping (ev_channel event) replyTarget,
                           CreateNewAnythingLLMThread W]) = Inr t"
    and tt: "truthy t"
    and st: "storeAnythingLLMThreadMapping env
               (calls w @ [DetermineWorkspace suggested (ev_user event) (ev_channel event),
                           GetAnythingLLMThreadMapping (ev_channel event) replyTarget,
                           CreateNewAnythingLLMThread W,
                           StoreAnythingLLMThreadMapping (ev_channel event) replyTarget W t]) = Inr ()"
  shows "filter is_thread_write
           (new_calls w (snd (snd (llm_query_path env cfg event cleanedQuery replyTarget
                                     thinkingMessageTs suggested w))))
         = [CreateNewAnythingLLMThread W,
            StoreAnythingLLMThreadMapping (ev_channel event) replyTarget W t]
       \<and> filter is_query
           (new_calls w (snd (snd (llm_query_path env cfg event cleanedQuery replyTarget
                                     thinkingMessageTs suggested w))))
         = [QueryLlm W t (llmInputText_of cfg cleanedQuery)]
       \<and> take 4 (new_calls w (snd (snd (llm_query_path env cfg event cleanedQuery replyTarget
                                     thinkingMessageTs suggested w))))
         = [DetermineWorkspace suggested (ev_user event) (ev_channel event),
            GetAnythingLLMThreadMapping (ev_channel event) replyTarget,
            CreateNewAnythingLLMThread W,
            StoreAnythingLLMThreadMapping (ev_channel event) replyTarget W t]"
proof -
  let ?c0 = "DetermineWorkspace suggested (ev_user event) (ev_channel event)"
  let ?c1 = "GetAnythingLLMThreadMapping (ev_channel event) replyTarget"
  let ?c2 = "CreateNewAnythingLLMThread W"
  let ?c3 = "StoreAnythingLLMThreadMapping (ev_channel event) replyTarget W t"
  let ?w2 = "w\<lparr>calls := calls w @ [?c0, ?c1, ?c2, ?c3]\<rparr>"
  let ?w3 = "updateOrDeleteThinkingMessage env (Some thinkingMessageTs) (ev_channel event)
               (Some (thinking_in_text W)) ?w2"
  let ?cq = "QueryLlm W t (llmInputText_of cfg cleanedQuery)"
  let ?w4 = "?w3\<lparr>calls := calls ?w3 @ [?cq]\<rparr>"
  let ?w5 = "updateOrDeleteThinkingMessage env (Some thinkingMessageTs) (ev_channel event) None ?w4"
  let ?res = "llm_query_path env cfg event cleanedQuery replyTarget thinkingMessageTs suggested w"
  have rt: "resolve_thread env event replyTarget W (w\<lparr>calls := calls w @ [?c0]\<rparr>) = (Inr t, ?w2)"
    using gm diff cr tt st by (simp add: resolve_thread_def perform_eq mapping_for_def)
  from updateOrDelete_adds [of env "Some thinkingMessageTs" "ev_channel event"
      "Some (thinking_in_text W)" ?w2]
  obtain cs3 where c3: "calls ?w3 = calls w @ [?c0, ?c1, ?c2, ?c3] @ cs3"
    "list_all is_placeholder_call cs3" by auto
  show ?thesis
  proof (cases "queryLlm env (calls ?w3 @ [?cq])")
    case (Inl e)
    then have "calls (snd (snd ?res)) = calls ?w4"
      using dw tw rt by (simp add: llm_query_path_def perform_eq Let_def)
    then have "calls (snd (snd ?res)) = calls w @ ([?c0, ?c1, ?c2, ?c3] @ cs3 @ [?cq])"
      using c3 by simp
    then have "new_calls w (snd (snd ?res)) = [?c0, ?c1, ?c2, ?c3] @ cs3 @ [?cq]"
      by (rule new_calls_append)
    with placeholder_call_other [OF c3(2)] show ?thesis by simp
  next
    case (Inr rawReply)
    let ?tr = "case rawReply of None \<Rightarrow> [] | Some r \<Rightarrow> trim r"
    from updateOrDelete_adds [of env "Some thinkingMessageTs" "ev_channel event" None ?w4]
    obtain cs5 where c5: "calls ?w5 = calls ?w4 @ cs5" "list_all is_placeholder_call cs5"
      by auto
    obtain r6 w6 where pr: "post_reply env cfg event replyTarget W ?tr ?w5 = (r6, w6)"
      by (cases "post_reply env cfg event replyTarget W ?tr ?w5") auto
    from post_reply_adds [OF pr] obtain cs6 where
      c6: "calls w6 = calls ?w5 @ cs6" "list_all is_post_or_delay cs6" by blast
    have "snd (snd ?res) = w6"
      using dw tw rt Inr pr by (simp add: llm_query_path_def perform_eq Let_def)
    then have "calls (snd (snd ?res)) = calls w @ ([?c0, ?c1, ?c2, ?c3] @ cs3 @ [?cq] @ cs5 @ cs6)"
      using c3 c5 c6 by simp
    then have "new_calls w (snd (snd ?res)) = [?c0, ?c1, ?c2, ?c3] @ cs3 @ [?cq] @ cs5 @ cs6"
      by (rule new_calls_append)
    with placeholder_call_other [OF c3(2)] placeholder_call_other [OF c5(2)]
      post_or_delay_other [OF c6(2)]
    show ?thesis by simp
  qed
qed

text \<open>
  Claim C2 extends this to the issue-analysis command with an explicit workspace. Lines
  188 and 189 take the explicit workspace and keep the thread slug of the stored mapping;
  line 203 then creates no thread, since a thread slug is known. Below, the model is run
  on such a command in a conversation mapped to the workspace docs: the executor is
  called with the workspace other and the thread of docs, no thread is created and no
  mapping is written.
\<close>

theorem issue_command_keeps_thread_of_other_workspace:
  "getAnythingLLMThreadMapping env_mapped
     [ChatPostMessage (text_message ''C1'' ''1700.0001'' processing_text),
      GetAnythingLLMThreadMapping ''C1'' ''1700.0001'']
     = Inr (Some \<lparr>anythingllm_workspace_slug = Some ''docs'',
                   anythingllm_thread_slug = Some ''thread-7''\<rparr>)
   \<and> handleSlackMessageEventInternal env_mapped cfg0 (event0 ''gh> analyze issue #5 #other'') w0
     = (Inr (),
        \<lparr>calls = [ChatPostMessage (text_message ''C1'' ''1700.0001'' processing_text),
                  GetAnythingLLMThreadMapping ''C1'' ''1700.0001'',
                  HandleIssueAnalysisCommand ''acme'' ''backlog'' (Integral 5) None ''1700.0001'' ''C1''
                    ''1700.0002'' (Some ''other'') (Some ''thread-7'')],
         logs = []\<rparr>)"
  by code_simp

end
